theory Spec2Isabelle
  imports Complex_Main
begin

section \<open>Python strings and POSIX paths\<close>

text \<open>
  The string operations of the Python standard library that
  \<^verbatim>\<open>ciftify_recon_all.py\<close> uses: \<^verbatim>\<open>str.startswith\<close>,
  \<^verbatim>\<open>str.endswith\<close>, the substring test \<^verbatim>\<open>sub in s\<close>,
  \<^verbatim>\<open>str.rfind\<close>, the slice \<^verbatim>\<open>s[0:k]\<close> and
  \<^verbatim>\<open>posixpath.join\<close>.
\<close>

fun startswith :: "string \<Rightarrow> string \<Rightarrow> bool" where
  "startswith s [] = True"
| "startswith [] (p # ps) = False"
| "startswith (c # cs) (p # ps) = (c = p \<and> startswith cs ps)"

definition endswith :: "string \<Rightarrow> string \<Rightarrow> bool" where
  "endswith s p = startswith (rev s) (rev p)"

fun str_in :: "string \<Rightarrow> string \<Rightarrow> bool" where
  "str_in sub [] = (sub = [])"
| "str_in sub (c # cs) = (startswith (c # cs) sub \<or> str_in sub cs)"

text \<open>\<^verbatim>\<open>s.rfind(c)\<close>: the highest index of \<open>c\<close> in \<open>s\<close>, or \<open>-1\<close>.\<close>

fun rfind_from :: "char \<Rightarrow> string \<Rightarrow> int \<Rightarrow> int \<Rightarrow> int" where
  "rfind_from c [] i found = found"
| "rfind_from c (x # xs) i found = rfind_from c xs (i + 1) (if x = c then i else found)"

definition rfind :: "string \<Rightarrow> char \<Rightarrow> int" where
  "rfind s c = rfind_from c s 0 (- 1)"

text \<open>\<^verbatim>\<open>s[0:k]\<close>: a negative \<open>k\<close> counts from the end of the string.\<close>

definition slice_to :: "string \<Rightarrow> int \<Rightarrow> string" where
  "slice_to s k = (if k < 0 then take (nat (int (length s) + k)) s else take (nat k) s)"

text \<open>
  \<^verbatim>\<open>posixpath.join(a, *p)\<close>: a component that starts with the separator
  replaces what was joined so far; otherwise it is appended, after a separator unless
  the path so far is empty or already ends with one.
\<close>

definition join2 :: "string \<Rightarrow> string \<Rightarrow> string" where
  "join2 path b =
     (if startswith b ''/'' then b
      else if path = [] \<or> endswith path ''/'' then path @ b
      else path @ ''/'' @ b)"

definition os_path_join :: "string \<Rightarrow> string list \<Rightarrow> string" where
  "os_path_join a p = foldl join2 a p"

text \<open>Truth value of an optional string argument: \<^verbatim>\<open>None\<close> and \<^verbatim>\<open>''\<close> are false.\<close>

definition truthy :: "string option \<Rightarrow> bool" where
  "truthy v = (case v of None \<Rightarrow> False | Some s \<Rightarrow> s \<noteq> [])"

section \<open>The world the program runs in\<close>

text \<open>
  The program is a sequence of calls to external tools, of file-system tests and of
  log records. A world holds the file system (of a type \<open>'f\<close> that the program only
  reaches through the operating system, see \<open>env\<close> below), the trace of the effects
  the program asked for, in order, and the records handed to the logger.
\<close>

datatype level = DEBUG | INFO | WARNING | ERROR | CRITICAL

datatype error = SystemExit int | KeyError string | OSError string | TypeError string

text \<open>One call of \<^verbatim>\<open>ciftify.utils.run\<close>, with the arguments the module's \<^verbatim>\<open>run\<close> passes.\<close>

record call =
  argv :: "string list"
  dryrun :: bool
  suppress_stdout :: bool
  suppress_stderr :: bool
  run_env :: "(string \<times> string) list"

datatype event =
    Run call
  | MakeDir string bool bool
  | Makedirs string
  | Symlink string string

record 'f world =
  fs :: 'f
  events :: "event list"
  logged :: "(level \<times> string) list"

text \<open>The module globals \<^verbatim>\<open>DRYRUN\<close>, \<^verbatim>\<open>N_CPUS\<close> (as \<^verbatim>\<open>str(N_CPUS)\<close>) and \<^verbatim>\<open>FS_LICENSE\<close>.\<close>

record globals =
  DRYRUN :: bool
  N_CPUS :: string
  FS_LICENSE :: "string option"

text \<open>A mesh settings dictionary, as \<^verbatim>\<open>define_meshes\<close> builds one per mesh space.\<close>

record mesh =
  Folder :: string
  meshname :: string
  tmpdir :: string
  images :: "string \<rightharpoonup> string"
  DenseMapsFolder :: "string option"

text \<open>
  One entry of the \<^verbatim>\<open>dscalars\<close> configuration: the settings of one scalar map.
\<close>

record dscalar =
  mapname :: string
  fsname :: "string option"
  map_postfix :: string
  palette_mode :: string
  palette_options :: string
  mask_medialwall :: bool

text \<open>A value of the registration settings dictionary: a string or a boolean.\<close>

datatype pyval = PyStr string | PyBool bool

text \<open>The command line arguments, as \<^verbatim>\<open>docopt\<close> returns them.\<close>

record arguments =
  arg_dry_run :: bool
  arg_resample_to_T1w32k :: bool
  arg_no_symlinks :: bool
  arg_surf_reg :: string
  arg_fs_subjects_dir :: "string option"
  arg_Subject :: string
  arg_fs_license :: "string option"
  arg_read_non_lin_xfm :: "string option"
  arg_read_lin_premat :: "string option"
  arg_MSM_config :: "string option"

text \<open>
  The fields that \<^verbatim>\<open>Settings\<close> inherits from \<^verbatim>\<open>WorkFlowSettings\<close>;
  \<open>wf_n_cpus\<close> is kept as \<^verbatim>\<open>str(n_cpus)\<close>, and the resolutions as the text that
  \<^verbatim>\<open>'{}'.format(res)\<close> prints.
\<close>

record workflow_settings =
  wf_work_dir :: string
  wf_high_res :: string
  wf_low_res :: "string list"
  wf_grayord_res :: "string list"
  wf_n_cpus :: string

text \<open>What \<^verbatim>\<open>ciftify.config.FSLog\<close> reads from the logs of \<^verbatim>\<open>recon-all\<close>.\<close>

record fslog =
  fslog_start :: string
  fslog_build :: string
  fslog_version :: string
  fslog_cmdargs :: string
  fslog_status :: string

text \<open>
  What the program calls and this file does not hold: the operating system and the
  Python standard library, and the functions of the packages \<^verbatim>\<open>ciftify.utils\<close>,
  \<^verbatim>\<open>ciftify.config\<close> and \<^verbatim>\<open>ciftify.filenames\<close>. They are parameters of the
  model; a theorem that names no particular environment holds for each value of them.
  \<^item> \<open>os_makedirs\<close>, \<open>os_symlink\<close> and \<open>logging_FileHandler\<close> return \<open>None\<close> when the
    call raises; \<open>read_text\<close> is the text of a file, \<open>None\<close> when \<^verbatim>\<open>open\<close> raises;
  \<^item> \<open>msm_printoptions\<close> is what \<^verbatim>\<open>msm --printoptions\<close> writes to its standard error;
  \<^item> \<open>utils_run\<close> is the external command run by \<^verbatim>\<open>ciftify.utils.run\<close>: its return
    code and the file system it leaves;
  \<^item> \<open>utils_make_dir\<close> is \<^verbatim>\<open>ciftify.utils.make_dir(dir, dry_run, suppress_exists_error)\<close>;
  \<^item> \<open>check_input_readable\<close>, \<open>verify_msm_available\<close>, \<open>get_registration_mode\<close>,
    \<open>WorkFlowSettings_init\<close>, \<open>find_ciftify_global\<close> and the three readers of the
    configuration return an error when they end the program;
  \<^item> \<open>tempdir_enter\<close> and \<open>tempdir_exit\<close> are the two ends of
    \<^verbatim>\<open>with ciftify.utils.TempDir() as d\<close>;
  \<^item> \<open>surf_file\<close>, \<open>metric_file\<close>, \<open>label_file\<close>, \<open>medial_wall_roi_file\<close>,
    \<open>spec_file\<close> and \<open>define_meshes\<close> are the file names and the mesh registry.
\<close>

record 'f env =
  os_path_exists :: "'f \<Rightarrow> string \<Rightarrow> bool"
  os_path_isfile :: "'f \<Rightarrow> string \<Rightarrow> bool"
  os_makedirs :: "string \<Rightarrow> 'f \<Rightarrow> 'f option"
  os_symlink :: "string \<Rightarrow> string \<Rightarrow> 'f \<Rightarrow> 'f option"
  os_path_relpath :: "string \<Rightarrow> string \<Rightarrow> string"
  os_path_realpath :: "'f \<Rightarrow> string \<Rightarrow> string"
  read_text :: "'f \<Rightarrow> string \<Rightarrow> string option"
  environ_FS_LICENSE :: "string option"
  hostname :: string
  logging_FileHandler :: "string \<Rightarrow> 'f \<Rightarrow> 'f option"
  msm_printoptions :: "'f \<Rightarrow> string"
  utils_run :: "call \<Rightarrow> 'f \<Rightarrow> int \<times> 'f"
  utils_make_dir :: "string \<Rightarrow> bool \<Rightarrow> bool \<Rightarrow> 'f \<Rightarrow> error option \<times> 'f"
  has_ciftify_recon_all_run :: "'f \<Rightarrow> string \<Rightarrow> string \<Rightarrow> bool"
  section_header :: "string \<Rightarrow> string"
  ciftify_logo :: string
  check_input_readable :: "'f \<Rightarrow> string \<Rightarrow> error option"
  get_registration_mode :: "arguments \<Rightarrow> error + string"
  WorkFlowSettings_init :: "arguments \<Rightarrow> error + workflow_settings"
  get_config_dscalars :: "workflow_settings \<Rightarrow> error + (string \<times> dscalar) list"
  get_config_registration :: "workflow_settings \<Rightarrow> error + (string \<rightharpoonup> pyval)"
  get_resolution_config ::
    "workflow_settings \<Rightarrow> string \<Rightarrow> string \<Rightarrow> error + (string \<rightharpoonup> pyval)"
  tempdir_enter :: "'f \<Rightarrow> string \<times> 'f"
  tempdir_exit :: "string \<Rightarrow> 'f \<Rightarrow> 'f"
  verify_msm_available :: "error option"
  find_ciftify_global :: "error + string"
  find_freesurfer_data :: "string option"
  FSLog :: "string \<Rightarrow> fslog"
  build_environment :: "string list"
  surf_file :: "string \<Rightarrow> string \<Rightarrow> string \<Rightarrow> mesh \<Rightarrow> string"
  metric_file :: "string \<Rightarrow> string \<Rightarrow> string \<Rightarrow> mesh \<Rightarrow> string"
  label_file :: "string \<Rightarrow> string \<Rightarrow> string \<Rightarrow> mesh \<Rightarrow> string"
  medial_wall_roi_file :: "string \<Rightarrow> string \<Rightarrow> mesh \<Rightarrow> string"
  spec_file :: "string \<Rightarrow> mesh \<Rightarrow> string"
  define_meshes ::
    "string \<Rightarrow> string \<Rightarrow> string \<Rightarrow> string list \<Rightarrow> bool \<Rightarrow> (string \<times> mesh) list"

text \<open>The two classes of the module: \<^verbatim>\<open>Subject\<close> and \<^verbatim>\<open>Settings\<close>.\<close>

record subject =
  sid :: string
  fs_folder :: string
  subject_path :: string
  T1w_dir :: string
  atlas_space_dir :: string
  subject_log :: string

record settings =
  s_work_dir :: string
  s_high_res :: string
  s_low_res :: "string list"
  s_grayord_res :: "string list"
  s_n_cpus :: string
  s_reg_name :: string
  s_msm_config :: "string option"
  s_resample :: bool
  s_no_symlinks :: bool
  s_fs_root_dir :: string
  s_subject :: subject
  s_ciftify_data_dir :: string
  s_fs_license :: "string option"
  s_use_T2 :: "string option"
  s_dscalars :: "(string \<times> dscalar) list"
  s_registration :: "string \<rightharpoonup> pyval"
  s_skip_main_wf :: bool

section \<open>Programs: state, errors, sequencing\<close>

text \<open>
  A program takes the world and returns the world it leaves, with a value or the
  error that ended it (\<^verbatim>\<open>sys.exit\<close> or an uncaught exception).
\<close>

type_synonym ('f, 'a) prog = "'f world \<Rightarrow> (error + 'a) \<times> 'f world"

definition return_val :: "'a \<Rightarrow> ('f, 'a) prog" where
  "return_val x w = (Inr x, w)"

definition raise_err :: "error \<Rightarrow> ('f, 'a) prog" where
  "raise_err e w = (Inl e, w)"

definition and_then :: "('f, 'a) prog \<Rightarrow> ('a \<Rightarrow> ('f, 'b) prog) \<Rightarrow> ('f, 'b) prog" where
  "and_then m f w = (case m w of (Inl e, w') \<Rightarrow> (Inl e, w') | (Inr x, w') \<Rightarrow> f x w')"

text \<open>A block of statements, run in order up to the first error.\<close>

fun steps :: "('f, unit) prog list \<Rightarrow> ('f, unit) prog" where
  "steps [] w = (Inr (), w)"
| "steps (s # ss) w = (case s w of (Inl e, w') \<Rightarrow> (Inl e, w') | (Inr u, w') \<Rightarrow> steps ss w')"

text \<open>\<^verbatim>\<open>for x in xs: body(x)\<close>.\<close>

definition for_each :: "'a list \<Rightarrow> ('a \<Rightarrow> ('f, unit) prog) \<Rightarrow> ('f, unit) prog" where
  "for_each xs body = steps (map body xs)"

definition logger :: "level \<Rightarrow> string \<Rightarrow> ('f, unit) prog" where
  "logger lvl msg w = (Inr (), w\<lparr>logged := logged w @ [(lvl, msg)]\<rparr>)"

definition sys_exit :: "int \<Rightarrow> ('f, 'a) prog" where
  "sys_exit n = raise_err (SystemExit n)"

text \<open>A call of a function that returns a value or ends the program.\<close>

definition lift_result :: "error + 'a \<Rightarrow> ('f, 'a) prog" where
  "lift_result r w = (r, w)"

definition lift_check :: "error option \<Rightarrow> ('f, unit) prog" where
  "lift_check r w = (case r of None \<Rightarrow> (Inr (), w) | Some e \<Rightarrow> (Inl e, w))"

text \<open>\<^verbatim>\<open>d[k]\<close> on a dictionary: a missing key raises \<^verbatim>\<open>KeyError\<close>.\<close>

definition lookup :: "(string \<rightharpoonup> 'v) \<Rightarrow> string \<Rightarrow> ('f, 'v) prog" where
  "lookup d k w = (case d k of None \<Rightarrow> (Inl (KeyError k), w) | Some v \<Rightarrow> (Inr v, w))"

section \<open>Running external commands\<close>

text \<open>
  \<^verbatim>\<open>run(cmd, dryrun, suppress_stdout, suppress_stderr)\<close>: the global \<^verbatim>\<open>DRYRUN\<close> is or-ed
  into the flag, the command is handed to \<^verbatim>\<open>ciftify.utils.run\<close>, and a return code
  other than zero ends the program with \<^verbatim>\<open>sys.exit(1)\<close>. No caller uses the value
  \<^verbatim>\<open>run\<close> returns (it is 0 whenever \<^verbatim>\<open>run\<close> returns), so the model returns unit.
\<close>

definition run_call :: "globals \<Rightarrow> string list \<Rightarrow> bool \<Rightarrow> bool \<Rightarrow> bool \<Rightarrow> call" where
  "run_call g cmd dry sup_out sup_err =
     \<lparr>argv = cmd, dryrun = (DRYRUN g \<or> dry), suppress_stdout = sup_out,
      suppress_stderr = sup_err,
      run_env = (case FS_LICENSE g of
                   None \<Rightarrow> [(''OMP_NUM_THREADS'', N_CPUS g)]
                 | Some l \<Rightarrow>
                     if l = [] then [(''OMP_NUM_THREADS'', N_CPUS g)]
                     else [(''OMP_NUM_THREADS'', N_CPUS g), (''FS_LICENSE'', l)])\<rparr>"

definition run ::
  "'f env \<Rightarrow> globals \<Rightarrow> string list \<Rightarrow> bool \<Rightarrow> bool \<Rightarrow> bool \<Rightarrow> ('f, unit) prog" where
  "run env g cmd dry sup_out sup_err w =
     (let c = run_call g cmd dry sup_out sup_err;
          r = utils_run env c (fs w);
          w' = w\<lparr>fs := snd r, events := events w @ [Run c]\<rparr>
      in if fst r \<noteq> 0 then (Inl (SystemExit 1), w') else (Inr (), w'))"

section \<open>Step 1.0: conversion of the FreeSurfer volumes\<close>

definition resample_freesurfer_mgz ::
  "'f env \<Rightarrow> globals \<Rightarrow> string \<Rightarrow> string \<Rightarrow> string \<Rightarrow> ('f, unit) prog" where
  "resample_freesurfer_mgz env g T1w_nii freesurfer_mgz image_nii =
     run env g [''mri_convert'', ''-rt'', ''nearest'', ''-rl'', T1w_nii, freesurfer_mgz,
                image_nii] (DRYRUN g) False False"

text \<open>The path \<^verbatim>\<open>os.path.join(freesurfer_folder, 'mri', '{}.mgz'.format(image_name))\<close>.\<close>

definition freesurfer_mgz_path :: "string \<Rightarrow> string \<Rightarrow> string" where
  "freesurfer_mgz_path freesurfer_folder image_name =
     os_path_join freesurfer_folder [''mri'', image_name @ ''.mgz'']"

definition convert_freesurfer_mgz ::
  "'f env \<Rightarrow> globals \<Rightarrow> string \<Rightarrow> string \<Rightarrow> string \<Rightarrow> string \<Rightarrow> string \<Rightarrow> ('f, unit) prog"
  where
  "convert_freesurfer_mgz env g image_name T1w_nii hcp_templates freesurfer_folder out_dir w =
     (let freesurfer_mgz = freesurfer_mgz_path freesurfer_folder image_name in
      if \<not> os_path_isfile env (fs w) freesurfer_mgz then
        (if freesurfer_mgz = ''wmparc.mgz'' then
           steps [logger ERROR (freesurfer_mgz @ '' not found, exiting.''), sys_exit 1] w
         else logger WARNING (freesurfer_mgz @ '' not found'') w)
      else
        (let image_nii = os_path_join out_dir [image_name @ ''.nii.gz''] in
         steps [
           resample_freesurfer_mgz env g T1w_nii freesurfer_mgz image_nii,
           run env g [''wb_command'', ''-logging'', ''SEVERE'', ''-volume-label-import'',
                      image_nii,
                      os_path_join hcp_templates [''hcp_config'', ''FreeSurferAllLut.txt''],
                      image_nii, ''-drop-unused-labels''] (DRYRUN g) False False] w))"

section \<open>Settings: the resume decision\<close>

text \<open>
  \<^verbatim>\<open>Settings.__has_been_run_before\<close>, on the fields of \<^verbatim>\<open>self\<close> it reads:
  \<^verbatim>\<open>work_dir\<close>, \<^verbatim>\<open>subject\<close> and \<^verbatim>\<open>resample\<close>. The value is \<^verbatim>\<open>skip_main_wf\<close>.
\<close>

definition has_been_run_before ::
  "'f env \<Rightarrow> string \<Rightarrow> subject \<Rightarrow> bool \<Rightarrow> ('f, bool) prog" where
  "has_been_run_before env work_dir subj resample w =
     (if os_path_exists env (fs w) (subject_path subj) then
        (if resample then
           (if has_ciftify_recon_all_run env (fs w) work_dir (sid subj) then
              and_then
                (logger INFO
                   ''Found completed ciftify output, only resampling to T1w/fsaverage_LR32k'')
                (\<lambda>u. return_val True) w
            else
              and_then
                (logger ERROR (''Found incomplete ciftify output at '' @ work_dir @ ''/''
                   @ sid subj @ '', an error may have occurred - aborting''))
                (\<lambda>u. sys_exit 1) w)
         else
           and_then
             (logger ERROR (''Subject output '' @ subject_path subj @ '' already exists.''
                @ ''If you wish to re-run, you must first delete old outputs.''))
             (\<lambda>u. sys_exit 1) w)
      else
        (case os_makedirs env (subject_path subj) (fs w) of
           None \<Rightarrow>
             and_then
               (logger ERROR (''Cannot make subject path '' @ subject_path subj @ '', exiting''))
               (\<lambda>u. sys_exit 1) w
         | Some fs' \<Rightarrow>
             (Inr False, w\<lparr>fs := fs', events := events w @ [Makedirs (subject_path subj)]\<rparr>)))"

section \<open>Directories, links and template files\<close>

definition skip :: "('f, unit) prog" where
  "skip w = (Inr (), w)"

text \<open>\<^verbatim>\<open>ciftify.utils.make_dir\<close> and \<^verbatim>\<open>os.symlink\<close>, each recorded in the trace.\<close>

definition make_dir :: "'f env \<Rightarrow> string \<Rightarrow> bool \<Rightarrow> bool \<Rightarrow> ('f, unit) prog" where
  "make_dir env d dry quiet w =
     (let r = utils_make_dir env d dry quiet (fs w);
          w' = w\<lparr>fs := snd r, events := events w @ [MakeDir d dry quiet]\<rparr>
      in case fst r of None \<Rightarrow> (Inr (), w') | Some e \<Rightarrow> (Inl e, w'))"

definition symlink :: "'f env \<Rightarrow> string \<Rightarrow> string \<Rightarrow> ('f, unit) prog" where
  "symlink env src dst w =
     (case os_symlink env src dst (fs w) of
        None \<Rightarrow> (Inl (OSError dst), w)
      | Some f \<Rightarrow> (Inr (), w\<lparr>fs := f, events := events w @ [Symlink src dst]\<rparr>))"

text \<open>\<^verbatim>\<open>posixpath.dirname\<close>.\<close>

definition rstrip_sep :: "string \<Rightarrow> string" where
  "rstrip_sep s = rev (dropWhile (\<lambda>c. c = CHR ''/'') (rev s))"

definition os_path_dirname :: "string \<Rightarrow> string" where
  "os_path_dirname p =
     (let head = slice_to p (rfind p CHR ''/'' + 1)
      in if head \<noteq> [] \<and> head \<noteq> replicate (length head) CHR ''/'' then rstrip_sep head
         else head)"

definition link_to_template_file ::
  "'f env \<Rightarrow> globals \<Rightarrow> settings \<Rightarrow> string \<Rightarrow> string \<Rightarrow> string \<Rightarrow> ('f, unit) prog" where
  "link_to_template_file env g settings subject_file global_file via_file =
     (if s_no_symlinks settings then
        run env g [''cp'', global_file, subject_file] (DRYRUN g) False False
      else
        (let via_folder = os_path_join (s_work_dir settings) [''zz_templates''];
             via_path = os_path_join via_folder [via_file]
         in steps [
              (\<lambda>w. if \<not> os_path_isfile env (fs w) via_path then
                      steps [
                        (\<lambda>w. if \<not> os_path_exists env (fs w) via_folder then
                                run env g [''mkdir'', ''-p'', via_folder] (DRYRUN g) False False w
                              else skip w),
                        run env g [''cp'', global_file, via_path] (DRYRUN g) False False] w
                    else skip w),
              (if \<not> DRYRUN g then
                 symlink env (os_path_relpath env via_path (os_path_dirname subject_file))
                   subject_file
               else skip)]))"

definition add_anat_images_to_spec_files ::
  "'f env \<Rightarrow> globals \<Rightarrow> (string \<times> mesh) list \<Rightarrow> string \<Rightarrow> string \<Rightarrow> ('f, unit) prog" where
  "add_anat_images_to_spec_files env g meshes subject_id img_type =
     for_each (map snd meshes) (\<lambda>m.
       and_then (lookup (images m) img_type) (\<lambda>img w.
         run env g [''wb_command'', ''-add-to-spec-file'',
                    os_path_realpath env (fs w) (spec_file env subject_id m),
                    ''INVALID'', os_path_realpath env (fs w) img] (DRYRUN g) False False w))"

section \<open>Step 2.0: functions called for every mesh\<close>

text \<open>\<open>iterations_scale\<close> is the text \<^verbatim>\<open>str(iterations_scale)\<close>.\<close>

definition make_inflated_surfaces ::
  "'f env \<Rightarrow> globals \<Rightarrow> string \<Rightarrow> mesh \<Rightarrow> string \<Rightarrow> ('f, unit) prog" where
  "make_inflated_surfaces env g subject_id mesh_settings iterations_scale =
     for_each [(''L'', ''CORTEX_LEFT''), (''R'', ''CORTEX_RIGHT'')] (\<lambda>(hemisphere, structure).
       let infl_surf = surf_file env subject_id ''inflated'' hemisphere mesh_settings;
           vinfl_surf = surf_file env subject_id ''very_inflated'' hemisphere mesh_settings
       in steps [
            run env g [''wb_command'', ''-surface-generate-inflated'',
                       surf_file env subject_id ''midthickness'' hemisphere mesh_settings,
                       infl_surf, vinfl_surf, ''-iterations-scale'', iterations_scale]
              (DRYRUN g) False False,
            run env g [''wb_command'', ''-add-to-spec-file'',
                       spec_file env subject_id mesh_settings, structure, infl_surf]
              (DRYRUN g) False False,
            run env g [''wb_command'', ''-add-to-spec-file'',
                       spec_file env subject_id mesh_settings, structure, vinfl_surf]
              (DRYRUN g) False False])"



definition add_dense_maps_to_spec_file ::
  "'f env \<Rightarrow> globals \<Rightarrow> string \<Rightarrow> mesh \<Rightarrow> string list \<Rightarrow> string list \<Rightarrow> ('f, unit) prog"
  where
  "add_dense_maps_to_spec_file env g subject_id mesh_settings dscalar_types expected_labels =
     (let maps_folder = (case DenseMapsFolder mesh_settings of
                           Some d \<Rightarrow> d | None \<Rightarrow> Folder mesh_settings)
      in steps [
           for_each dscalar_types (\<lambda>dscalar_name w.
             run env g [''wb_command'', ''-add-to-spec-file'',
                        os_path_realpath env (fs w) (spec_file env subject_id mesh_settings),
                        ''INVALID'',
                        os_path_realpath env (fs w) (os_path_join maps_folder
                          [subject_id @ ''.'' @ dscalar_name @ ''.'' @ meshname mesh_settings
                             @ ''.dscalar.nii''])] (DRYRUN g) False False w),
           for_each expected_labels (\<lambda>label_name w.
             let file_name = subject_id @ ''.'' @ label_name @ ''.'' @ meshname mesh_settings
                   @ ''.dlabel.nii'';
                 dlabel_file = os_path_realpath env (fs w) (os_path_join maps_folder [file_name])
             in if \<not> os_path_exists env (fs w) dlabel_file then
                  logger DEBUG (''dlabel file '' @ dlabel_file @ '' does not exist, skipping'') w
                else
                  run env g [''wb_command'', ''-add-to-spec-file'',
                             os_path_realpath env (fs w) (spec_file env subject_id mesh_settings),
                             ''INVALID'', dlabel_file] (DRYRUN g) False False w)])"


section \<open>Step 2.1: the sphere of a template mesh\<close>

definition copy_sphere_mesh_from_template ::
  "'f env \<Rightarrow> globals \<Rightarrow> settings \<Rightarrow> mesh \<Rightarrow> ('f, unit) prog" where
  "copy_sphere_mesh_from_template env g settings mesh_settings =
     (let mesh_name = meshname mesh_settings
      in for_each [(''L'', ''CORTEX_LEFT''), (''R'', ''CORTEX_RIGHT'')]
           (\<lambda>(hemisphere, structure).
              let sphere_basename =
                    (if mesh_name = ''164k_fs_LR'' then
                       ''fsaverage.'' @ hemisphere @ ''_LR.spherical_std.'' @ mesh_name
                         @ ''.surf.gii''
                     else hemisphere @ ''.sphere.'' @ mesh_name @ ''.surf.gii'');
                  sphere_src = os_path_join (s_ciftify_data_dir settings)
                    [''standard_mesh_atlases'', sphere_basename];
                  sphere_dest = surf_file env (sid (s_subject settings)) ''sphere'' hemisphere
                    mesh_settings
              in steps [
                   link_to_template_file env g settings sphere_dest sphere_src sphere_basename,
                   run env g [''wb_command'', ''-add-to-spec-file'',
                              spec_file env (sid (s_subject settings)) mesh_settings,
                              structure, sphere_dest] (DRYRUN g) False False]))"

section \<open>Step 3.0: the names of the registration spheres\<close>

definition get_reg_sphere_names :: "string \<times> string" where
  "get_reg_sphere_names =
     (let FS_reg_sphere_name = ''sphere.reg.reg_LR'';
          MSMSulc_reg_sphere_name = ''sphere.MSMSulc''
      in (FS_reg_sphere_name, MSMSulc_reg_sphere_name))"

section \<open>Step 4.1: resampling a mesh to other spaces\<close>

definition resample_surfs_and_add_to_spec ::
  "'f env \<Rightarrow> globals \<Rightarrow> string \<Rightarrow> mesh \<Rightarrow> mesh \<Rightarrow> string \<Rightarrow> string \<Rightarrow> mesh option
     \<Rightarrow> ('f, unit) prog" where
  "resample_surfs_and_add_to_spec env g subject_id source_mesh dest_mesh current_sphere
       dest_sphere current_sphere_mesh_arg =
     (let current_sphere_mesh = (case current_sphere_mesh_arg of
                                   None \<Rightarrow> source_mesh | Some m \<Rightarrow> m)
      in for_each [''white'', ''midthickness'', ''pial''] (\<lambda>surface.
           for_each [(''L'', ''CORTEX_LEFT''), (''R'', ''CORTEX_RIGHT'')]
             (\<lambda>(hemisphere, structure).
                let surf_in = surf_file env subject_id surface hemisphere source_mesh;
                    surf_out = surf_file env subject_id surface hemisphere dest_mesh;
                    current_sphere_surf = surf_file env subject_id current_sphere hemisphere
                      current_sphere_mesh;
                    dest_sphere_surf = surf_file env subject_id dest_sphere hemisphere dest_mesh
                in steps [
                     run env g [''wb_command'', ''-surface-resample'', surf_in,
                                current_sphere_surf, dest_sphere_surf, ''BARYCENTRIC'', surf_out]
                       False False False,
                     run env g [''wb_command'', ''-add-to-spec-file'',
                                spec_file env subject_id dest_mesh, structure, surf_out]
                       False False False])))"


definition resample_label ::
  "'f env \<Rightarrow> globals \<Rightarrow> string \<Rightarrow> string \<Rightarrow> string \<Rightarrow> mesh \<Rightarrow> mesh \<Rightarrow> string \<Rightarrow> string
     \<Rightarrow> ('f, unit) prog" where
  "resample_label env g subject_id label_name hemisphere source_mesh dest_mesh
       current_sphere dest_sphere w =
     (let label_in = label_file env subject_id label_name hemisphere source_mesh
      in if os_path_exists env (fs w) label_in then
           run env g [''wb_command'', ''-label-resample'', label_in,
                      surf_file env subject_id current_sphere hemisphere source_mesh,
                      surf_file env subject_id dest_sphere hemisphere dest_mesh,
                      ''BARYCENTRIC'',
                      label_file env subject_id label_name hemisphere dest_mesh,
                      ''-largest''] False False False w
         else skip w)"

definition resample_to_native ::
  "'f env \<Rightarrow> globals \<Rightarrow> mesh \<Rightarrow> mesh \<Rightarrow> settings \<Rightarrow> string \<Rightarrow> string \<Rightarrow> string list \<Rightarrow> mesh
     \<Rightarrow> ('f, unit) prog" where
  "resample_to_native env g native_mesh dest_mesh settings subject_id sphere expected_labels
       reg_sphere_mesh =
     steps [
       copy_sphere_mesh_from_template env g settings dest_mesh,
       resample_surfs_and_add_to_spec env g subject_id native_mesh dest_mesh sphere ''sphere''
         (Some reg_sphere_mesh),
       make_inflated_surfaces env g subject_id dest_mesh ''0.75'',
       add_dense_maps_to_spec_file env g subject_id dest_mesh (map fst (s_dscalars settings))
         expected_labels]"



section \<open>Step 0: settings and logging\<close>







section \<open>The add-on: resampling to the T1w low resolution meshes\<close>

definition resampling_to_t1w_32k ::
  "'f env \<Rightarrow> globals \<Rightarrow> string \<Rightarrow> settings \<Rightarrow> (string \<times> mesh) list \<Rightarrow> string list
     \<Rightarrow> ('f, unit) prog" where
  "resampling_to_t1w_32k env g temp_dir settings meshes expected_labels =
     (let subj = s_subject settings;
          FS_reg_sphere_name = fst get_reg_sphere_names;
          MSMSulc_reg_sphere_name = snd get_reg_sphere_names;
          reg_sphere = (if s_reg_name settings = ''MSMSulc'' then MSMSulc_reg_sphere_name
                        else FS_reg_sphere_name)
      in and_then (lookup (map_of meshes) ''AtlasSpaceNative'') (\<lambda>atlas_native.
           let reg_sphere_file = surf_file env (sid subj) reg_sphere ''L'' atlas_native
           in steps [
                (\<lambda>w. if \<not> os_path_exists env (fs w) reg_sphere_file then
                        and_then
                          (logger CRITICAL (''Cannot find registration sphere ''
                             @ reg_sphere_file @ '', exiting''))
                          (\<lambda>u. sys_exit 1) w
                      else skip w),
                for_each (s_low_res settings) (\<lambda>res.
                  let low_res_name = res @ ''k_fs_LR'';
                      dest_mesh_name = ''Native'' @ res @ ''k_fs_LR''
                  in steps [
                       logger INFO (section_header env
                         (''Resampling data from Native to T1w -'' @ low_res_name)),
                       and_then (lookup (map_of meshes) dest_mesh_name) (\<lambda>dest.
                         steps [
                           (\<lambda>w. if \<not> os_path_exists env (fs w) (Folder dest) then
                                   make_dir env (Folder dest) (DRYRUN g) False w
                                 else skip w),
                           add_anat_images_to_spec_files env g [(''mesh'', dest)] (sid subj)
                             ''T1wImage'',
                           and_then (lookup (map_of meshes) ''T1wNative'') (\<lambda>t1w_native.
                             resample_to_native env g t1w_native dest settings (sid subj)
                               reg_sphere expected_labels atlas_native)])])]))"

section \<open>The workflow\<close>


section \<open>Settings: the registration mode and the MSM configuration\<close>

text \<open>
  The lines that the \<^verbatim>\<open>readline\<close> loop of \<^verbatim>\<open>check_msm_config\<close> reads: each keeps its
  newline, and the loop stops at the first empty read, that is at the end of the text.
\<close>

fun readlines_from :: "string \<Rightarrow> string \<Rightarrow> string list" where
  "readlines_from cur [] = (if cur = [] then [] else [cur])"
| "readlines_from cur (c # cs) =
     (if c = CHR 0x0A then (cur @ [c]) # readlines_from [] cs
      else readlines_from (cur @ [c]) cs)"

text \<open>\<^verbatim>\<open>arg[0:arg.rfind('=')]\<close>: the option named on a line of the configuration.\<close>

definition config_option :: "string \<Rightarrow> string" where
  "config_option arg = slice_to arg (rfind arg CHR ''='')"

definition check_msm_config :: "'f env \<Rightarrow> string \<Rightarrow> ('f, bool) prog" where
  "check_msm_config env msm_config w =
     (case read_text env (fs w) msm_config of
        None \<Rightarrow> (Inl (OSError msm_config), w)
      | Some txt \<Rightarrow>
          (let arg_list = map config_option (readlines_from [] txt);
               err = msm_printoptions env (fs w)
           in (Inr (list_all (\<lambda>arg. str_in arg err \<or> arg = ''--dopt'') arg_list), w)))"

text \<open>\<^verbatim>\<open>Settings.__set_registration_mode\<close>: the value and \<^verbatim>\<open>self.msm_config\<close>.\<close>

definition set_registration_mode ::
  "'f env \<Rightarrow> arguments \<Rightarrow> ('f, string \<times> string option) prog" where
  "set_registration_mode env args =
     and_then (lift_result (get_registration_mode env args)) (\<lambda>surf_reg.
       if surf_reg = ''MSMSulc'' then
         and_then (lift_check (verify_msm_available env)) (\<lambda>u.
           let user_config = arg_MSM_config args
           in and_then
                (if \<not> truthy user_config then
                   and_then (lift_result (find_ciftify_global env)) (\<lambda>d.
                     return_val (os_path_join d [''hcp_config'', ''MSMSulcStrainFinalconf'']))
                 else
                   (\<lambda>w. case user_config of
                          None \<Rightarrow> raise_err (TypeError ''user_config'') w
                        | Some c \<Rightarrow>
                            if \<not> os_path_exists env (fs w) c then
                              and_then
                                (logger ERROR (''MSM config file '' @ c @ '' does not exist''))
                                (\<lambda>u. sys_exit 1) w
                            else return_val c w))
                (\<lambda>msm_config.
                   and_then (check_msm_config env msm_config) (\<lambda>ok.
                     if \<not> ok then
                       and_then
                         (logger ERROR (''Running version of MSM does not match config ''
                            @ msm_config))
                         (\<lambda>u. sys_exit 1)
                     else return_val (surf_reg, Some msm_config))))
       else return_val (surf_reg, None))"

section \<open>Settings: the FreeSurfer folder, the subject, the license, the scalar maps\<close>

definition set_fs_subjects_dir :: "'f env \<Rightarrow> arguments \<Rightarrow> ('f, string) prog" where
  "set_fs_subjects_dir env args =
     (case arg_fs_subjects_dir args of
        Some d \<Rightarrow>
          if d \<noteq> [] then return_val d
          else (case find_freesurfer_data env of
                  None \<Rightarrow> and_then
                    (logger ERROR ''Cannot find freesurfer subjects dir, exiting.'')
                    (\<lambda>u. sys_exit 1)
                | Some r \<Rightarrow> return_val r)
      | None \<Rightarrow>
          (case find_freesurfer_data env of
             None \<Rightarrow> and_then
               (logger ERROR ''Cannot find freesurfer subjects dir, exiting.'')
               (\<lambda>u. sys_exit 1)
           | Some r \<Rightarrow> return_val r))"

text \<open>\<^verbatim>\<open>Subject.__init__\<close>.\<close>

definition Subject_init ::
  "'f env \<Rightarrow> string \<Rightarrow> string \<Rightarrow> string \<Rightarrow> bool \<Rightarrow> ('f, subject) prog" where
  "Subject_init env work_dir fs_root_dir subject_id resample_to_T1w32k w =
     (let fs_path = os_path_join fs_root_dir [subject_id]
      in if \<not> os_path_exists env (fs w) fs_path then
           and_then
             (logger ERROR (subject_id @ '' freesurfer folder does not exist, exiting.''))
             (\<lambda>u. sys_exit 1) w
         else
           (let path = os_path_join work_dir [subject_id]
            in return_val \<lparr>sid = subject_id, fs_folder = fs_path, subject_path = path,
                 T1w_dir = os_path_join path [''T1w''],
                 atlas_space_dir = os_path_join path [''MNINonLinear''],
                 subject_log = os_path_join path [''cifti_recon_all.log'']\<rparr> w))"

definition get_freesurfer_license :: "'f env \<Rightarrow> string option \<Rightarrow> ('f, string option) prog" where
  "get_freesurfer_license env fs_license_arg =
     (if truthy fs_license_arg then
        and_then
          (\<lambda>w. lift_check (check_input_readable env (fs w)
                  (case fs_license_arg of Some l \<Rightarrow> l | None \<Rightarrow> [])) w)
          (\<lambda>u. return_val fs_license_arg)
      else return_val (environ_FS_LICENSE env))"

text \<open>
  \<^verbatim>\<open>del d[k]\<close> on the ordered dictionary of the scalar maps. In \<^verbatim>\<open>__define_dscalars\<close>
  the two deletions stand in one \<^verbatim>\<open>try\<close>: when the first key is missing the second
  deletion is not reached.
\<close>

definition del_key :: "string \<Rightarrow> (string \<times> 'v) list \<Rightarrow> (string \<times> 'v) list" where
  "del_key k d = filter (\<lambda>kv. fst kv \<noteq> k) d"

definition define_dscalars ::
  "'f env \<Rightarrow> workflow_settings \<Rightarrow> string \<Rightarrow> ('f, (string \<times> dscalar) list) prog" where
  "define_dscalars env wfs reg_name =
     and_then (lift_result (get_config_dscalars env wfs)) (\<lambda>dscalars_config.
       if reg_name \<noteq> ''MSMSulc'' then
         (if ''ArealDistortion_MSMSulc'' \<in> fst ` set dscalars_config then
            return_val (del_key ''EdgeDistortion_MSMSulc''
              (del_key ''ArealDistortion_MSMSulc'' dscalars_config))
          else return_val dscalars_config)
       else return_val dscalars_config)"

section \<open>Settings: the registration settings\<close>

text \<open>
  The loop over \<^verbatim>\<open>['src_dir', 'dest_dir', 'xfms_dir']\<close>: a missing key ends the
  program, a present one is replaced by its path under the subject's output root.
\<close>

fun set_subject_folders ::
  "string \<Rightarrow> string list \<Rightarrow> (string \<rightharpoonup> pyval) \<Rightarrow> ('f, string \<rightharpoonup> pyval) prog" where
  "set_subject_folders path [] cfg = return_val cfg"
| "set_subject_folders path (key # keys) cfg =
     (case cfg key of
        None \<Rightarrow>
          and_then
            (logger CRITICAL (''registration config does not contain expectedkey '' @ key))
            (\<lambda>u. sys_exit 1)
      | Some (PyStr subfolders) \<Rightarrow>
          set_subject_folders path keys (cfg(key \<mapsto> PyStr (os_path_join path [subfolders])))
      | Some (PyBool b) \<Rightarrow> raise_err (TypeError key))"

definition str_of :: "string option \<Rightarrow> string" where
  "str_of v = (case v of None \<Rightarrow> [] | Some s \<Rightarrow> s)"

definition define_registration_settings ::
  "'f env \<Rightarrow> workflow_settings \<Rightarrow> subject \<Rightarrow> string option \<Rightarrow> string option \<Rightarrow> string
     \<Rightarrow> string \<Rightarrow> ('f, string \<rightharpoonup> pyval) prog" where
  "define_registration_settings env wfs subj read_nonlin_xfm read_lin_xfm method standard_res =
     and_then (lift_result (get_config_registration env wfs)) (\<lambda>config0.
       and_then (set_subject_folders (subject_path subj) [''src_dir'', ''dest_dir'', ''xfms_dir'']
                   config0) (\<lambda>config1.
         and_then (lift_result (get_resolution_config env wfs method standard_res))
           (\<lambda>resolution_config.
              let registration_config = config1 ++ resolution_config
              in if truthy read_nonlin_xfm \<or> truthy read_lin_xfm then
                   (if truthy read_nonlin_xfm \<and> truthy read_lin_xfm then
                      and_then
                        (\<lambda>w. lift_check
                                (check_input_readable env (fs w) (str_of read_nonlin_xfm)) w)
                        (\<lambda>u. and_then
                           (\<lambda>w. lift_check
                                   (check_input_readable env (fs w) (str_of read_lin_xfm)) w)
                           (\<lambda>u. return_val (registration_config
                              (''User_AtlasTransform_NonLinear'' \<mapsto> PyStr (str_of read_nonlin_xfm),
                               ''User_AtlasTransform_Linear'' \<mapsto> PyStr (str_of read_lin_xfm)))))
                    else
                      and_then
                        (logger CRITICAL
                           ''if inputing user transforms, both linear and non-linear input files are needed'')
                        (\<lambda>u. sys_exit 1))
                 else
                   return_val (registration_config
                     (''User_AtlasTransform_NonLinear'' \<mapsto> PyBool False,
                      ''User_AtlasTransform_Linear'' \<mapsto> PyBool False)))))"

section \<open>Settings: the constructor, and the main function\<close>

text \<open>
  \<^verbatim>\<open>Settings.__init__\<close>, statement by statement. \<^verbatim>\<open>__get_T2\<close> returns \<^verbatim>\<open>None\<close> whatever
  its arguments are.
\<close>

definition Settings_init :: "'f env \<Rightarrow> arguments \<Rightarrow> ('f, settings) prog" where
  "Settings_init env args =
     and_then (lift_result (WorkFlowSettings_init env args)) (\<lambda>wfs.
     and_then (set_registration_mode env args) (\<lambda>mode.
     and_then (set_fs_subjects_dir env args) (\<lambda>root_dir.
     and_then (Subject_init env (wf_work_dir wfs) root_dir (arg_Subject args)
                 (arg_resample_to_T1w32k args)) (\<lambda>subj.
     and_then (lift_result (find_ciftify_global env)) (\<lambda>data_dir.
     and_then (get_freesurfer_license env (arg_fs_license args)) (\<lambda>license.
     and_then (define_dscalars env wfs (fst mode)) (\<lambda>dscalars.
     and_then (define_registration_settings env wfs subj (arg_read_non_lin_xfm args)
                 (arg_read_lin_premat args) ''FSL_fnirt'' ''2mm'') (\<lambda>registration.
     and_then (has_been_run_before env (wf_work_dir wfs) subj (arg_resample_to_T1w32k args))
       (\<lambda>skip. return_val
          \<lparr>s_work_dir = wf_work_dir wfs, s_high_res = wf_high_res wfs,
           s_low_res = wf_low_res wfs, s_grayord_res = wf_grayord_res wfs,
           s_n_cpus = wf_n_cpus wfs, s_reg_name = fst mode, s_msm_config = snd mode,
           s_resample = arg_resample_to_T1w32k args, s_no_symlinks = arg_no_symlinks args,
           s_fs_root_dir = root_dir, s_subject = subj, s_ciftify_data_dir = data_dir,
           s_fs_license = license, s_use_T2 = None, s_dscalars = dscalars,
           s_registration = registration, s_skip_main_wf = skip\<rparr>)))))))))"




section \<open>A sample environment\<close>

text \<open>
  One value of the parameters, for evaluating the program on concrete inputs.
  \<^item> The file system is the list of the paths that exist, each with its text.
  \<^item> The command runner does nothing in a dry run; otherwise the command returns 0 and
    the files it writes come to exist (\<open>cmd_outputs\<close>: the output arguments of the
    commands that the resampling functions run).
  \<^item> The file names are formed from the mesh folder and the mesh name; the mesh
    registry holds the two native meshes, the high resolution mesh, one mesh for each low
    resolution and, when asked for, one \<^verbatim>\<open>Native{res}k_fs_LR\<close> mesh for each.
  \<^item> \<^verbatim>\<open>msm --printoptions\<close> prints the options of \<open>plain_msm_options\<close>, separated by
    spaces.
\<close>

definition cmd_outputs :: "string list \<Rightarrow> string list" where
  "cmd_outputs av =
     (if take 1 av = [''cp''] then take 1 (drop 2 av)
      else if take 2 av = [''mkdir'', ''-p''] then take 1 (drop 2 av)
      else if take 1 av = [''wb_command''] then
        (let sub = take 1 (drop 1 av); rest = drop 2 av
         in if sub = [''-add-to-spec-file''] then take 1 rest
            else if sub = [''-surface-resample''] \<or> sub = [''-label-resample'']
                    \<or> sub = [''-metric-resample''] then take 1 (drop 4 rest)
            else if sub = [''-surface-generate-inflated''] then take 2 (drop 1 rest)
            else if sub = [''-metric-mask''] then take 1 (drop 2 rest)
            else if sub = [''-cifti-create-dense-scalar''] \<or> sub = [''-cifti-create-label'']
              then take 1 rest
            else [])
      else [])"

definition plain_run_tool :: "call \<Rightarrow> (string \<times> string) list \<Rightarrow> int \<times> (string \<times> string) list"
  where
  "plain_run_tool c f =
     (if dryrun c then (0, f) else (0, map (\<lambda>p. (p, [])) (cmd_outputs (argv c)) @ f))"

definition plain_msm_options :: "string list" where
  "plain_msm_options =
     [''--simval'', ''--sigma_in'', ''--sigma_out'', ''--opt'', ''--lambda'', ''--it'',
      ''--CPgrid'']"

fun join_spaces :: "string list \<Rightarrow> string" where
  "join_spaces [] = []"
| "join_spaces [x] = x"
| "join_spaces (x # y # ys) = x @ '' '' @ join_spaces (y # ys)"

definition plain_mesh :: "string \<Rightarrow> string \<Rightarrow> string \<Rightarrow> string \<Rightarrow> string option \<Rightarrow> mesh" where
  "plain_mesh folder name tmp t1 dense =
     \<lparr>Folder = folder, meshname = name, tmpdir = tmp,
      images = [''T1wImage'' \<mapsto> t1], DenseMapsFolder = dense\<rparr>"

definition plain_define_meshes ::
  "string \<Rightarrow> string \<Rightarrow> string \<Rightarrow> string list \<Rightarrow> bool \<Rightarrow> (string \<times> mesh) list" where
  "plain_define_meshes subject_hcp temp_dir high_res_mesh low_res_meshes make_low_res =
     [(''T1wNative'',
        plain_mesh (os_path_join subject_hcp [''T1w'', ''Native'']) ''native''
          (os_path_join temp_dir [''native''])
          (os_path_join subject_hcp [''T1w'', ''T1w.nii.gz''])
          (Some (os_path_join subject_hcp [''MNINonLinear'', ''Native'']))),
      (''AtlasSpaceNative'',
        plain_mesh (os_path_join subject_hcp [''MNINonLinear'', ''Native'']) ''native''
          (os_path_join temp_dir [''native''])
          (os_path_join subject_hcp [''MNINonLinear'', ''T1w.nii.gz'']) None),
      (''HighResMesh'',
        plain_mesh (os_path_join subject_hcp [''MNINonLinear'']) (high_res_mesh @ ''k_fs_LR'')
          (os_path_join temp_dir [high_res_mesh @ ''k_fs_LR''])
          (os_path_join subject_hcp [''MNINonLinear'', ''T1w.nii.gz'']) None)]
     @ concat (map (\<lambda>res.
         (res @ ''k_fs_LR'',
            plain_mesh (os_path_join subject_hcp [''MNINonLinear'', ''fsaverage_LR'' @ res @ ''k''])
              (res @ ''k_fs_LR'') (os_path_join temp_dir [res @ ''k_fs_LR''])
              (os_path_join subject_hcp [''MNINonLinear'', ''T1w.nii.gz'']) None)
         # (if make_low_res then
              [(''Native'' @ res @ ''k_fs_LR'',
                 plain_mesh (os_path_join subject_hcp [''T1w'', ''fsaverage_LR'' @ res @ ''k''])
                   (res @ ''k_fs_LR'') (os_path_join temp_dir [res @ ''k_fs_LR''])
                   (os_path_join subject_hcp [''T1w'', ''T1w.nii.gz''])
                   (Some (os_path_join subject_hcp
                      [''MNINonLinear'', ''fsaverage_LR'' @ res @ ''k''])))]
            else [])) low_res_meshes)"

definition plain_dscalars :: "(string \<times> dscalar) list" where
  "plain_dscalars =
     [(''sulc'', \<lparr>mapname = ''sulc'', fsname = Some ''sulc'', map_postfix = ''_Sulc'',
         palette_mode = ''MODE_AUTO_SCALE_PERCENTAGE'', palette_options = ''-pos-percent 2 98'',
         mask_medialwall = False\<rparr>),
      (''thickness'', \<lparr>mapname = ''thickness'', fsname = Some ''thickness'',
         map_postfix = ''_Thickness'', palette_mode = ''MODE_AUTO_SCALE_PERCENTAGE'',
         palette_options = ''-pos-percent 4 96'', mask_medialwall = True\<rparr>)]"

definition plain_env :: "(string \<times> string) list env" where
  "plain_env = \<lparr>
     os_path_exists = (\<lambda>fs p. p \<in> fst ` set fs),
     os_path_isfile = (\<lambda>fs p. p \<in> fst ` set fs),
     os_makedirs = (\<lambda>p fs. if p \<in> fst ` set fs then None else Some ((p, []) # fs)),
     os_symlink = (\<lambda>src dst fs. if dst \<in> fst ` set fs then None else Some ((dst, []) # fs)),
     os_path_relpath = (\<lambda>p start. p),
     os_path_realpath = (\<lambda>fs p. p),
     read_text = (\<lambda>fs p. map_of fs p),
     environ_FS_LICENSE = None,
     hostname = ''localhost'',
     logging_FileHandler = (\<lambda>p fs. Some (if p \<in> fst ` set fs then fs else (p, []) # fs)),
     msm_printoptions = (\<lambda>fs. join_spaces plain_msm_options),
     utils_run = plain_run_tool,
     utils_make_dir = (\<lambda>p dry quiet fs. (None, if dry then fs else (p, []) # fs)),
     has_ciftify_recon_all_run = (\<lambda>fs work_dir s.
        os_path_join work_dir [s, ''MNINonLinear'', ''fsaverage_LR32k'',
          s @ ''.32k_fs_LR.wb.spec''] \<in> fst ` set fs),
     section_header = (\<lambda>t. t),
     ciftify_logo = ''ciftify'',
     check_input_readable = (\<lambda>fs p. if p \<in> fst ` set fs then None else Some (SystemExit 1)),
     get_registration_mode = (\<lambda>a. Inr (arg_surf_reg a)),
     WorkFlowSettings_init = (\<lambda>a. Inr \<lparr>wf_work_dir = ''/work'', wf_high_res = ''164'',
        wf_low_res = [''32''], wf_grayord_res = [''2''], wf_n_cpus = ''1''\<rparr>),
     get_config_dscalars = (\<lambda>wfs. Inr plain_dscalars),
     get_config_registration = (\<lambda>wfs. Inr [''src_dir'' \<mapsto> PyStr ''T1w'',
        ''dest_dir'' \<mapsto> PyStr ''MNINonLinear'', ''xfms_dir'' \<mapsto> PyStr ''MNINonLinear/xfms'',
        ''T1wImage'' \<mapsto> PyStr ''T1w.nii.gz'']),
     get_resolution_config = (\<lambda>wfs method res. Inr [''FNIRTConfig'' \<mapsto> PyStr ''/data/fnirt.cnf'']),
     tempdir_enter = (\<lambda>fs. (''/tmp/ciftify'', fs)),
     tempdir_exit = (\<lambda>d fs. fs),
     verify_msm_available = None,
     find_ciftify_global = Inr ''/data'',
     find_freesurfer_data = Some ''/fs'',
     FSLog = (\<lambda>folder. \<lparr>fslog_start = ''2018'', fslog_build = ''stable'',
        fslog_version = ''v6.0.0'', fslog_cmdargs = ''-all'', fslog_status = []\<rparr>),
     build_environment = [],
     surf_file = (\<lambda>s surface hemi m.
        os_path_join (Folder m)
          [s @ ''.'' @ hemi @ ''.'' @ surface @ ''.'' @ meshname m @ ''.surf.gii'']),
     metric_file = (\<lambda>s name hemi m.
        os_path_join (tmpdir m)
          [s @ ''.'' @ hemi @ ''.'' @ name @ ''.'' @ meshname m @ ''.shape.gii'']),
     label_file = (\<lambda>s name hemi m.
        os_path_join (tmpdir m)
          [s @ ''.'' @ hemi @ ''.'' @ name @ ''.'' @ meshname m @ ''.label.gii'']),
     medial_wall_roi_file = (\<lambda>s hemi m.
        os_path_join (Folder m) [s @ ''.'' @ hemi @ ''.roi.'' @ meshname m @ ''.shape.gii'']),
     spec_file = (\<lambda>s m. os_path_join (Folder m) [s @ ''.'' @ meshname m @ ''.wb.spec'']),
     define_meshes = plain_define_meshes\<rparr>"

definition plain_globals :: globals where
  "plain_globals = \<lparr>DRYRUN = False, N_CPUS = ''1'', FS_LICENSE = None\<rparr>"

definition world_of :: "'f \<Rightarrow> 'f world" where
  "world_of f = \<lparr>fs = f, events = [], logged = []\<rparr>"

definition plain_subject :: subject where
  "plain_subject = \<lparr>sid = ''sub-01'', fs_folder = ''/fs/sub-01'',
     subject_path = ''/work/sub-01'', T1w_dir = ''/work/sub-01/T1w'',
     atlas_space_dir = ''/work/sub-01/MNINonLinear'',
     subject_log = ''/work/sub-01/cifti_recon_all.log''\<rparr>"

definition plain_settings :: settings where
  "plain_settings = \<lparr>s_work_dir = ''/work'', s_high_res = ''164'', s_low_res = [''32''],
     s_grayord_res = [''2''], s_n_cpus = ''1'', s_reg_name = ''FS'', s_msm_config = None,
     s_resample = True, s_no_symlinks = False, s_fs_root_dir = ''/fs'',
     s_subject = plain_subject, s_ciftify_data_dir = ''/data'', s_fs_license = None,
     s_use_T2 = None, s_dscalars = plain_dscalars,
     s_registration = [''User_AtlasTransform_NonLinear'' \<mapsto> PyBool False,
                       ''User_AtlasTransform_Linear'' \<mapsto> PyBool False],
     s_skip_main_wf = True\<rparr>"

definition plain_meshes :: "(string \<times> mesh) list" where
  "plain_meshes = plain_define_meshes ''/work/sub-01'' ''/tmp/ciftify'' ''164'' [''32''] True"

definition atlas_native_mesh :: mesh where
  "atlas_native_mesh = plain_mesh ''/work/sub-01/MNINonLinear/Native'' ''native''
     ''/tmp/ciftify/native'' ''/work/sub-01/MNINonLinear/T1w.nii.gz'' None"

definition t1w_native_mesh :: mesh where
  "t1w_native_mesh = plain_mesh ''/work/sub-01/T1w/Native'' ''native''
     ''/tmp/ciftify/native'' ''/work/sub-01/T1w/T1w.nii.gz''
     (Some ''/work/sub-01/MNINonLinear/Native'')"

definition low_res_mesh :: mesh where
  "low_res_mesh = plain_mesh ''/work/sub-01/MNINonLinear/fsaverage_LR32k'' ''32k_fs_LR''
     ''/tmp/ciftify/32k_fs_LR'' ''/work/sub-01/MNINonLinear/T1w.nii.gz'' None"

definition native_low_res_mesh :: mesh where
  "native_low_res_mesh = plain_mesh ''/work/sub-01/T1w/fsaverage_LR32k'' ''32k_fs_LR''
     ''/tmp/ciftify/32k_fs_LR'' ''/work/sub-01/T1w/T1w.nii.gz''
     (Some ''/work/sub-01/MNINonLinear/fsaverage_LR32k'')"







text \<open>
  A second runner, for a file system where a registration sphere is missing: it is the
  sample runner, but \<^verbatim>\<open>wb_command -surface-resample\<close> fails with return code 1 when the
  file of its current sphere (its third argument) does not exist.
\<close>

definition sphere_checking_tool ::
  "call \<Rightarrow> (string \<times> string) list \<Rightarrow> int \<times> (string \<times> string) list" where
  "sphere_checking_tool c f =
     (if \<not> dryrun c \<and> take 2 (argv c) = [''wb_command'', ''-surface-resample'']
         \<and> \<not> list_all (\<lambda>p. p \<in> fst ` set f) (take 1 (drop 3 (argv c)))
      then (1, f)
      else plain_run_tool c f)"


definition sphere_checking_env :: "(string \<times> string) list env" where
  "sphere_checking_env = plain_env\<lparr>utils_run := sphere_checking_tool\<rparr>"

text \<open>
  A subject whose registration sphere exists for the left hemisphere only, and the
  settings of a run that copies the templates (\<^verbatim>\<open>--no-symlinks\<close>).
\<close>

definition left_sphere_world :: "(string \<times> string) list world" where
  "left_sphere_world =
     world_of [(''/work/sub-01/MNINonLinear/Native/sub-01.L.sphere.reg.reg_LR.native.surf.gii'',
                [])]"

definition copying_settings :: settings where
  "copying_settings = plain_settings\<lparr>s_no_symlinks := True\<rparr>"



section \<open>Properties of programs\<close>

text \<open>
  A program is quiet when it leaves the file system and the trace as they were (it may
  add to the log); it stops when, besides, it always ends with an error.
\<close>

definition quiet :: "('f, 'a) prog \<Rightarrow> bool" where
  "quiet p = (\<forall>w. fs (snd (p w)) = fs w \<and> events (snd (p w)) = events w)"





section \<open>Sequencing\<close>

lemma and_then_Inr:
  "and_then m f w = (Inr y, w') \<longleftrightarrow> (\<exists>x w1. m w = (Inr x, w1) \<and> f x w1 = (Inr y, w'))"
  by (auto simp: and_then_def split: prod.splits sum.splits)

lemma Settings_init_skip:
  assumes "Settings_init env args w = (Inr s, w')"
  shows "\<exists>w1. has_been_run_before env (s_work_dir s) (s_subject s) (s_resample s) w1
            = (Inr (s_skip_main_wf s), w')"
  using assms unfolding Settings_init_def and_then_Inr return_val_def
  by auto

lemma run_result:
  "run env g cmd dry so se w =
     ((if fst (utils_run env (run_call g cmd dry so se) (fs w)) \<noteq> 0 then Inl (SystemExit 1)
       else Inr ()),
      w\<lparr>fs := snd (utils_run env (run_call g cmd dry so se) (fs w)),
        events := events w @ [Run (run_call g cmd dry so se)]\<rparr>)"
  by (simp add: run_def Let_def)

section \<open>The sample environment, evaluated\<close>

lemma plain_meshes_eq:
  "plain_meshes = [(''T1wNative'', t1w_native_mesh), (''AtlasSpaceNative'', atlas_native_mesh),
     (''HighResMesh'', plain_mesh ''/work/sub-01/MNINonLinear'' ''164k_fs_LR''
        ''/tmp/ciftify/164k_fs_LR'' ''/work/sub-01/MNINonLinear/T1w.nii.gz'' None),
     (''32k_fs_LR'', low_res_mesh), (''Native32k_fs_LR'', native_low_res_mesh)]"
  by (simp add: plain_meshes_def plain_define_meshes_def t1w_native_mesh_def
        atlas_native_mesh_def low_res_mesh_def native_low_res_mesh_def os_path_join_def
        join2_def endswith_def)

lemma plain_surf_file:
  "surf_file plain_env s surface hemi (plain_mesh folder name tmp t1 dense) =
     join2 folder (s @ ''.'' @ hemi @ ''.'' @ surface @ ''.'' @ name @ ''.surf.gii'')"
  by (simp add: plain_env_def plain_mesh_def os_path_join_def)

lemma plain_label_file:
  "label_file plain_env s name hemi (plain_mesh folder mname tmp t1 dense) =
     join2 tmp (s @ ''.'' @ hemi @ ''.'' @ name @ ''.'' @ mname @ ''.label.gii'')"
  by (simp add: plain_env_def plain_mesh_def os_path_join_def)

lemma plain_spec_file:
  "spec_file plain_env s (plain_mesh folder mname tmp t1 dense) =
     join2 folder (s @ ''.'' @ mname @ ''.wb.spec'')"
  by (simp add: plain_env_def plain_mesh_def os_path_join_def)

lemma plain_exists: "os_path_exists plain_env f p = (p \<in> fst ` set f)"
  by (simp add: plain_env_def)

lemma plain_isfile: "os_path_isfile plain_env f p = (p \<in> fst ` set f)"
  by (simp add: plain_env_def)

lemma plain_run: "utils_run plain_env c f = plain_run_tool c f"
  by (simp add: plain_env_def)






section \<open>The registration mode\<close>



lemma and_then_Inr_eq: "m w = (Inr x, w') \<Longrightarrow> and_then m f w = f x w'"
  by (simp add: and_then_def)



section \<open>Quiet programs: the construction of the settings\<close>

lemma quiet_return_val: "quiet (return_val x)" by (simp add: quiet_def return_val_def)
lemma quiet_raise_err: "quiet (raise_err e)" by (simp add: quiet_def raise_err_def)
lemma quiet_sys_exit: "quiet (sys_exit n)" by (simp add: quiet_def sys_exit_def raise_err_def)
lemma quiet_logger: "quiet (logger l m)" by (simp add: quiet_def logger_def)
lemma quiet_lift_result: "quiet (lift_result r)" by (simp add: quiet_def lift_result_def)

lemma quiet_and_then: "quiet m \<Longrightarrow> (\<And>x. quiet (f x)) \<Longrightarrow> quiet (and_then m f)"
  unfolding quiet_def and_then_def
proof (intro allI)
  fix w
  assume m: "\<forall>w. fs (snd (m w)) = fs w \<and> events (snd (m w)) = events w"
    and f: "\<And>x. \<forall>w. fs (snd (f x w)) = fs w \<and> events (snd (f x w)) = events w"
  show "fs (snd (case m w of (Inl e, w') \<Rightarrow> (Inl e, w') | (Inr x, w') \<Rightarrow> f x w')) = fs w \<and>
        events (snd (case m w of (Inl e, w') \<Rightarrow> (Inl e, w') | (Inr x, w') \<Rightarrow> f x w')) = events w"
  proof (cases "m w")
    case (Pair r w1)
    then have w1: "fs w1 = fs w \<and> events w1 = events w" using m [rule_format, of w] by simp
    show ?thesis
    proof (cases r)
      case (Inl e)
      then show ?thesis using Pair w1 by simp
    next
      case (Inr x)
      then show ?thesis using Pair w1 f [of x, rule_format, of w1] by simp
    qed
  qed
qed

lemma quiet_if_world:
  "quiet p \<Longrightarrow> quiet q \<Longrightarrow> quiet (\<lambda>w. if c w then p w else q w)"
  by (simp add: quiet_def)

lemma quiet_log_exit: "quiet (and_then (logger l m) (\<lambda>u. sys_exit n))"
  by (intro quiet_and_then quiet_logger quiet_sys_exit)


lemma quiet_if: "quiet p \<Longrightarrow> quiet q \<Longrightarrow> quiet (if b then p else q)"
  by simp






lemma quiet_check_input_readable:
  "quiet (\<lambda>w. lift_check (check_input_readable env (fs w) p) w)"
  by (simp add: quiet_def lift_check_def split: option.splits)



lemma quiet_set_subject_folders: "quiet (set_subject_folders path keys cfg)"
proof (induction keys arbitrary: cfg)
  case Nil
  show ?case by (simp add: quiet_return_val)
next
  case (Cons key keys)
  show ?case
  proof (cases "cfg key")
    case None
    then show ?thesis by (simp add: quiet_log_exit)
  next
    case (Some v)
    then show ?thesis using Cons.IH by (cases v) (simp_all add: quiet_raise_err)
  qed
qed

lemma quiet_define_registration_settings:
  "quiet (define_registration_settings env wfs subj a b m r)"
  unfolding define_registration_settings_def Let_def
  by (intro quiet_if quiet_and_then quiet_lift_result quiet_set_subject_folders
      quiet_return_val quiet_log_exit quiet_check_input_readable)











section \<open>Paths built by \<^verbatim>\<open>os.path.join\<close>\<close>

lemma join2_mri_no_trailing_sep:
  "join2 folder ''mri'' \<noteq> [] \<and> \<not> endswith (join2 folder ''mri'') ''/''"
  by (auto simp: join2_def endswith_def)

lemma startswith_sep_hd: "startswith b ''/'' \<Longrightarrow> b \<noteq> [] \<and> hd b = CHR ''/''"
  by (cases b) auto

lemma freesurfer_mgz_path_not_bare: "freesurfer_mgz_path folder img \<noteq> ''wmparc.mgz''"
proof -
  let ?X = "join2 folder ''mri''" and ?b = "img @ ''.mgz''"
  have p: "freesurfer_mgz_path folder img = join2 ?X ?b"
    by (simp add: freesurfer_mgz_path_def os_path_join_def)
  show ?thesis
  proof (cases "startswith ?b ''/''")
    case True
    then have "join2 ?X ?b = ?b" by (simp add: join2_def)
    moreover from True have "hd ?b = CHR ''/''" using startswith_sep_hd by blast
    ultimately show ?thesis using p by auto
  next
    case False
    then have "join2 ?X ?b = ?X @ ''/'' @ ?b"
      using join2_mri_no_trailing_sep [of folder] by (simp add: join2_def)
    then have "CHR ''/'' \<in> set (freesurfer_mgz_path folder img)" using p by simp
    moreover have "CHR ''/'' \<notin> set ''wmparc.mgz''" by simp
    ultimately show ?thesis by metis
  qed
qed

section \<open>A missing FreeSurfer volume\<close>

text \<open>
  Claim C10. In \<^verbatim>\<open>convert_freesurfer_mgz\<close> the test
  \<^verbatim>\<open>freesurfer_mgz == 'wmparc.mgz'\<close> compares the joined path
  \<^verbatim>\<open>freesurfer_folder/mri/image_name.mgz\<close> with a bare file name, and no folder and
  no image name make the two equal: the branch that exits is never taken. When the
  volume is missing (\<^verbatim>\<open>wmparc\<close> or any other), the function appends one warning
  to the log and returns normally: no command is run, the file system and the trace
  are as they were.
\<close>

theorem convert_freesurfer_mgz_missing_only_warns:
  "freesurfer_mgz_path freesurfer_folder image_name \<noteq> ''wmparc.mgz'' \<and>
   (\<not> os_path_isfile env (fs w) (freesurfer_mgz_path freesurfer_folder image_name) \<longrightarrow>
      convert_freesurfer_mgz env g image_name T1w_nii hcp_templates freesurfer_folder out_dir w =
        (Inr (), w\<lparr>logged := logged w @
           [(WARNING, freesurfer_mgz_path freesurfer_folder image_name @ '' not found'')]\<rparr>))"
  using freesurfer_mgz_path_not_bare [of freesurfer_folder image_name]
  by (simp add: convert_freesurfer_mgz_def logger_def Let_def)

theorem convert_freesurfer_mgz_missing_only_warns_witness:
  "freesurfer_mgz_path ''/fs/sub-01'' ''wmparc'' = ''/fs/sub-01/mri/wmparc.mgz'' \<and>
   \<not> os_path_isfile plain_env (fs (world_of [(''/fs/sub-01'', [])])) ''/fs/sub-01/mri/wmparc.mgz'' \<and>
   convert_freesurfer_mgz plain_env plain_globals ''wmparc'' ''/out/sub-01/T1w/T1w.nii.gz''
       ''/data'' ''/fs/sub-01'' ''/out/sub-01/T1w'' (world_of [(''/fs/sub-01'', [])]) =
     (Inr (), \<lparr>fs = [(''/fs/sub-01'', [])], events = [],
        logged = [(WARNING, ''/fs/sub-01/mri/wmparc.mgz not found'')]\<rparr>)"
proof -
  have p: "freesurfer_mgz_path ''/fs/sub-01'' ''wmparc'' = ''/fs/sub-01/mri/wmparc.mgz''"
    by (simp add: freesurfer_mgz_path_def os_path_join_def join2_def endswith_def)
  have a: "\<not> os_path_isfile plain_env (fs (world_of [(''/fs/sub-01'', [])])) ''/fs/sub-01/mri/wmparc.mgz''"
    by (simp add: plain_env_def world_of_def)
  show ?thesis
    using convert_freesurfer_mgz_missing_only_warns [of "''/fs/sub-01''" "''wmparc''" plain_env
        "world_of [(''/fs/sub-01'', [])]" plain_globals "''/out/sub-01/T1w/T1w.nii.gz''" "''/data''"
        "''/out/sub-01/T1w''"] p a
    by (simp add: world_of_def)
qed

section \<open>The resume decision\<close>

text \<open>
  Claim C1. The resume decision of \<^verbatim>\<open>Settings.__has_been_run_before\<close>:
  \<^item> when the output root of the subject does not exist, \<^verbatim>\<open>os.makedirs\<close> is called on
    it; if that succeeds the decision is the full pipeline (\<^verbatim>\<open>skip_main_wf\<close> is
    false) and the file system is the one \<^verbatim>\<open>os.makedirs\<close> left, if it raises the
    program exits with status 1;
  \<^item> when the root exists and the resample flag is not set, the program exits with
    status 1, whether the earlier run is complete or not;
  \<^item> when the root exists, the flag is set and the completeness test holds, the decision
    is resample-only (\<^verbatim>\<open>skip_main_wf\<close> is true);
  \<^item> when the root exists, the flag is set and the completeness test fails, the program
    exits with status 1.
  In the three exits nothing but the log changes. The decision is the last statement of
  the constructor of the settings: the field \<^verbatim>\<open>skip_main_wf\<close> of the settings that
  \<^verbatim>\<open>main\<close> hands to the workflow is the value of that one call.
\<close>

theorem resume_decision:
  "(\<not> os_path_exists env (fs w) (subject_path subj) \<longrightarrow>
      (case os_makedirs env (subject_path subj) (fs w) of
         Some f \<Rightarrow>
           has_been_run_before env work_dir subj resample w =
             (Inr False, w\<lparr>fs := f, events := events w @ [Makedirs (subject_path subj)]\<rparr>)
       | None \<Rightarrow>
           has_been_run_before env work_dir subj resample w =
             (Inl (SystemExit 1), w\<lparr>logged := logged w @
                [(ERROR, ''Cannot make subject path '' @ subject_path subj @ '', exiting'')]\<rparr>)))
   \<and> (os_path_exists env (fs w) (subject_path subj) \<and> \<not> resample \<longrightarrow>
        has_been_run_before env work_dir subj resample w =
          (Inl (SystemExit 1), w\<lparr>logged := logged w @
             [(ERROR, ''Subject output '' @ subject_path subj @ '' already exists.''
                 @ ''If you wish to re-run, you must first delete old outputs.'')]\<rparr>))
   \<and> (os_path_exists env (fs w) (subject_path subj) \<and> resample
        \<and> has_ciftify_recon_all_run env (fs w) work_dir (sid subj) \<longrightarrow>
        has_been_run_before env work_dir subj resample w =
          (Inr True, w\<lparr>logged := logged w @
             [(INFO, ''Found completed ciftify output, only resampling to T1w/fsaverage_LR32k'')]\<rparr>))
   \<and> (os_path_exists env (fs w) (subject_path subj) \<and> resample
        \<and> \<not> has_ciftify_recon_all_run env (fs w) work_dir (sid subj) \<longrightarrow>
        has_been_run_before env work_dir subj resample w =
          (Inl (SystemExit 1), w\<lparr>logged := logged w @
             [(ERROR, ''Found incomplete ciftify output at '' @ work_dir @ ''/'' @ sid subj
                 @ '', an error may have occurred - aborting'')]\<rparr>))
   \<and> (\<forall>args s w'. Settings_init env args w = (Inr s, w') \<longrightarrow>
        (\<exists>w1. has_been_run_before env (s_work_dir s) (s_subject s) (s_resample s) w1
            = (Inr (s_skip_main_wf s), w')))"
proof -
  have decision:
    "(\<not> os_path_exists env (fs w) (subject_path subj) \<longrightarrow>
      (case os_makedirs env (subject_path subj) (fs w) of
         Some f \<Rightarrow>
           has_been_run_before env work_dir subj resample w =
             (Inr False, w\<lparr>fs := f, events := events w @ [Makedirs (subject_path subj)]\<rparr>)
       | None \<Rightarrow>
           has_been_run_before env work_dir subj resample w =
             (Inl (SystemExit 1), w\<lparr>logged := logged w @
                [(ERROR, ''Cannot make subject path '' @ subject_path subj @ '', exiting'')]\<rparr>)))
   \<and> (os_path_exists env (fs w) (subject_path subj) \<and> \<not> resample \<longrightarrow>
        has_been_run_before env work_dir subj resample w =
          (Inl (SystemExit 1), w\<lparr>logged := logged w @
             [(ERROR, ''Subject output '' @ subject_path subj @ '' already exists.''
                 @ ''If you wish to re-run, you must first delete old outputs.'')]\<rparr>))
   \<and> (os_path_exists env (fs w) (subject_path subj) \<and> resample
        \<and> has_ciftify_recon_all_run env (fs w) work_dir (sid subj) \<longrightarrow>
        has_been_run_before env work_dir subj resample w =
          (Inr True, w\<lparr>logged := logged w @
             [(INFO, ''Found completed ciftify output, only resampling to T1w/fsaverage_LR32k'')]\<rparr>))
   \<and> (os_path_exists env (fs w) (subject_path subj) \<and> resample
        \<and> \<not> has_ciftify_recon_all_run env (fs w) work_dir (sid subj) \<longrightarrow>
        has_been_run_before env work_dir subj resample w =
          (Inl (SystemExit 1), w\<lparr>logged := logged w @
             [(ERROR, ''Found incomplete ciftify output at '' @ work_dir @ ''/'' @ sid subj
                 @ '', an error may have occurred - aborting'')]\<rparr>))"
    by (auto simp: has_been_run_before_def and_then_def logger_def sys_exit_def raise_err_def
          return_val_def split: option.splits)
  have once: "\<forall>args s w'. Settings_init env args w = (Inr s, w') \<longrightarrow>
        (\<exists>w1. has_been_run_before env (s_work_dir s) (s_subject s) (s_resample s) w1
            = (Inr (s_skip_main_wf s), w'))"
    using Settings_init_skip by blast
  from decision once show ?thesis by blast
qed

theorem resume_decision_witness:
  "has_been_run_before plain_env ''/work'' plain_subject False (world_of []) =
     (Inr False, \<lparr>fs = [(''/work/sub-01'', [])], events = [Makedirs ''/work/sub-01''],
        logged = []\<rparr>)
   \<and> has_been_run_before plain_env ''/work'' plain_subject False
        (world_of [(''/work/sub-01'', [])]) =
     (Inl (SystemExit 1), \<lparr>fs = [(''/work/sub-01'', [])], events = [],
        logged = [(ERROR, ''Subject output /work/sub-01 already exists.''
           @ ''If you wish to re-run, you must first delete old outputs.'')]\<rparr>)
   \<and> has_been_run_before plain_env ''/work'' plain_subject True
        (world_of [(''/work/sub-01'', []),
           (''/work/sub-01/MNINonLinear/fsaverage_LR32k/sub-01.32k_fs_LR.wb.spec'', [])]) =
     (Inr True, \<lparr>fs = [(''/work/sub-01'', []),
           (''/work/sub-01/MNINonLinear/fsaverage_LR32k/sub-01.32k_fs_LR.wb.spec'', [])],
        events = [],
        logged = [(INFO,
           ''Found completed ciftify output, only resampling to T1w/fsaverage_LR32k'')]\<rparr>)
   \<and> has_been_run_before plain_env ''/work'' plain_subject True
        (world_of [(''/work/sub-01'', [])]) =
     (Inl (SystemExit 1), \<lparr>fs = [(''/work/sub-01'', [])], events = [],
        logged = [(ERROR, ''Found incomplete ciftify output at /work/sub-01''
           @ '', an error may have occurred - aborting'')]\<rparr>)"
proof -
  have marker: "os_path_join ''/work'' [''sub-01'', ''MNINonLinear'', ''fsaverage_LR32k'',
      ''sub-01.32k_fs_LR.wb.spec''] =
      ''/work/sub-01/MNINonLinear/fsaverage_LR32k/sub-01.32k_fs_LR.wb.spec''"
    by (simp add: os_path_join_def join2_def endswith_def)
  have a: "has_been_run_before plain_env ''/work'' plain_subject False (world_of []) =
     (Inr False, \<lparr>fs = [(''/work/sub-01'', [])], events = [Makedirs ''/work/sub-01''],
        logged = []\<rparr>)"
    using resume_decision [where env = plain_env and w = "world_of []" and subj = plain_subject
        and work_dir = "''/work''" and resample = False]
    by (simp add: plain_env_def plain_subject_def world_of_def)
  have b: "has_been_run_before plain_env ''/work'' plain_subject False
        (world_of [(''/work/sub-01'', [])]) =
     (Inl (SystemExit 1), \<lparr>fs = [(''/work/sub-01'', [])], events = [],
        logged = [(ERROR, ''Subject output /work/sub-01 already exists.''
           @ ''If you wish to re-run, you must first delete old outputs.'')]\<rparr>)"
    using resume_decision [where env = plain_env and w = "world_of [(''/work/sub-01'', [])]"
        and subj = plain_subject and work_dir = "''/work''" and resample = False]
    by (simp add: plain_env_def plain_subject_def world_of_def)
  have c: "has_been_run_before plain_env ''/work'' plain_subject True
        (world_of [(''/work/sub-01'', []),
           (''/work/sub-01/MNINonLinear/fsaverage_LR32k/sub-01.32k_fs_LR.wb.spec'', [])]) =
     (Inr True, \<lparr>fs = [(''/work/sub-01'', []),
           (''/work/sub-01/MNINonLinear/fsaverage_LR32k/sub-01.32k_fs_LR.wb.spec'', [])],
        events = [],
        logged = [(INFO,
           ''Found completed ciftify output, only resampling to T1w/fsaverage_LR32k'')]\<rparr>)"
    using resume_decision [where env = plain_env
        and w = "world_of [(''/work/sub-01'', []),
           (''/work/sub-01/MNINonLinear/fsaverage_LR32k/sub-01.32k_fs_LR.wb.spec'', [])]"
        and subj = plain_subject and work_dir = "''/work''" and resample = True] marker
    by (simp add: plain_env_def plain_subject_def world_of_def)
  have d: "has_been_run_before plain_env ''/work'' plain_subject True
        (world_of [(''/work/sub-01'', [])]) =
     (Inl (SystemExit 1), \<lparr>fs = [(''/work/sub-01'', [])], events = [],
        logged = [(ERROR, ''Found incomplete ciftify output at /work/sub-01''
           @ '', an error may have occurred - aborting'')]\<rparr>)"
    using resume_decision [where env = plain_env and w = "world_of [(''/work/sub-01'', [])]"
        and subj = plain_subject and work_dir = "''/work''" and resample = True] marker
    by (simp add: plain_env_def plain_subject_def world_of_def)
  from a b c d show ?thesis by blast
qed

section \<open>Resampling a label\<close>

text \<open>
  Claim C7, as amended. \<^verbatim>\<open>resample_label\<close>, for every label name, hemisphere, source
  and destination mesh:
  \<^item> when the label file of the source mesh does not exist, the function returns
    normally and leaves the world as it was: no command, no log record, no error;
  \<^item> when it exists, the function hands exactly one command to
    \<^verbatim>\<open>ciftify.utils.run\<close>: \<^verbatim>\<open>wb_command -label-resample\<close> with the source label, the
    current sphere of the source mesh, the sphere of the destination mesh, the method
    \<^verbatim>\<open>BARYCENTRIC\<close>, the label file of the destination mesh and the option
    \<^verbatim>\<open>-largest\<close>. The call is flagged as a dry run exactly when the global
    \<^verbatim>\<open>DRYRUN\<close> is set, it hides neither output stream, and its environment holds
    \<^verbatim>\<open>OMP_NUM_THREADS\<close> and, when a license is set, \<^verbatim>\<open>FS_LICENSE\<close>. A return code
    other than 0 ends the program with status 1.
  So the label is resampled unless the run is a dry run.
\<close>

theorem resample_label_command:
  "(\<not> os_path_exists env (fs w) (label_file env subject_id label_name hemisphere source_mesh) \<longrightarrow>
      resample_label env g subject_id label_name hemisphere source_mesh dest_mesh
        current_sphere dest_sphere w = (Inr (), w))
   \<and> (os_path_exists env (fs w) (label_file env subject_id label_name hemisphere source_mesh) \<longrightarrow>
      (let c = \<lparr>argv = [''wb_command'', ''-label-resample'',
                   label_file env subject_id label_name hemisphere source_mesh,
                   surf_file env subject_id current_sphere hemisphere source_mesh,
                   surf_file env subject_id dest_sphere hemisphere dest_mesh,
                   ''BARYCENTRIC'',
                   label_file env subject_id label_name hemisphere dest_mesh,
                   ''-largest''],
                 dryrun = DRYRUN g, suppress_stdout = False, suppress_stderr = False,
                 run_env = (case FS_LICENSE g of
                              None \<Rightarrow> [(''OMP_NUM_THREADS'', N_CPUS g)]
                            | Some l \<Rightarrow>
                                if l = [] then [(''OMP_NUM_THREADS'', N_CPUS g)]
                                else [(''OMP_NUM_THREADS'', N_CPUS g), (''FS_LICENSE'', l)])\<rparr>
       in resample_label env g subject_id label_name hemisphere source_mesh dest_mesh
            current_sphere dest_sphere w =
          ((if fst (utils_run env c (fs w)) \<noteq> 0 then Inl (SystemExit 1) else Inr ()),
           w\<lparr>fs := snd (utils_run env c (fs w)), events := events w @ [Run c]\<rparr>)))"
  by (simp add: resample_label_def skip_def run_def run_call_def Let_def)

theorem resample_label_command_witness:
  "\<not> os_path_exists plain_env (fs (world_of []))
       (label_file plain_env ''sub-01'' ''aparc'' ''L'' atlas_native_mesh)
   \<and> resample_label plain_env plain_globals ''sub-01'' ''aparc'' ''L'' atlas_native_mesh
        low_res_mesh ''sphere.reg.reg_LR'' ''sphere'' (world_of []) = (Inr (), world_of [])
   \<and> os_path_exists plain_env
        (fs (world_of [(''/tmp/ciftify/native/sub-01.L.aparc.native.label.gii'', [])]))
        (label_file plain_env ''sub-01'' ''aparc'' ''L'' atlas_native_mesh)
   \<and> resample_label plain_env plain_globals ''sub-01'' ''aparc'' ''L'' atlas_native_mesh
        low_res_mesh ''sphere.reg.reg_LR'' ''sphere''
        (world_of [(''/tmp/ciftify/native/sub-01.L.aparc.native.label.gii'', [])]) =
      (Inr (),
       \<lparr>fs = [(''/tmp/ciftify/32k_fs_LR/sub-01.L.aparc.32k_fs_LR.label.gii'', []),
              (''/tmp/ciftify/native/sub-01.L.aparc.native.label.gii'', [])],
        events = [Run \<lparr>argv = [''wb_command'', ''-label-resample'',
            ''/tmp/ciftify/native/sub-01.L.aparc.native.label.gii'',
            ''/work/sub-01/MNINonLinear/Native/sub-01.L.sphere.reg.reg_LR.native.surf.gii'',
            ''/work/sub-01/MNINonLinear/fsaverage_LR32k/sub-01.L.sphere.32k_fs_LR.surf.gii'',
            ''BARYCENTRIC'', ''/tmp/ciftify/32k_fs_LR/sub-01.L.aparc.32k_fs_LR.label.gii'',
            ''-largest''],
          dryrun = False, suppress_stdout = False, suppress_stderr = False,
          run_env = [(''OMP_NUM_THREADS'', ''1'')]\<rparr>],
        logged = []\<rparr>)"
proof -
  have absent: "\<not> os_path_exists plain_env (fs (world_of []))
       (label_file plain_env ''sub-01'' ''aparc'' ''L'' atlas_native_mesh)"
    by (simp add: plain_exists world_of_def)
  have present: "os_path_exists plain_env
        (fs (world_of [(''/tmp/ciftify/native/sub-01.L.aparc.native.label.gii'', [])]))
        (label_file plain_env ''sub-01'' ''aparc'' ''L'' atlas_native_mesh)"
    by (simp add: plain_exists world_of_def atlas_native_mesh_def plain_label_file join2_def
          endswith_def)
  have a: "resample_label plain_env plain_globals ''sub-01'' ''aparc'' ''L'' atlas_native_mesh
        low_res_mesh ''sphere.reg.reg_LR'' ''sphere'' (world_of []) = (Inr (), world_of [])"
    using absent resample_label_command [where env = plain_env and w = "world_of []"
        and subject_id = "''sub-01''" and label_name = "''aparc''" and hemisphere = "''L''"
        and source_mesh = atlas_native_mesh]
    by blast
  have b: "resample_label plain_env plain_globals ''sub-01'' ''aparc'' ''L'' atlas_native_mesh
        low_res_mesh ''sphere.reg.reg_LR'' ''sphere''
        (world_of [(''/tmp/ciftify/native/sub-01.L.aparc.native.label.gii'', [])]) =
      (Inr (),
       \<lparr>fs = [(''/tmp/ciftify/32k_fs_LR/sub-01.L.aparc.32k_fs_LR.label.gii'', []),
              (''/tmp/ciftify/native/sub-01.L.aparc.native.label.gii'', [])],
        events = [Run \<lparr>argv = [''wb_command'', ''-label-resample'',
            ''/tmp/ciftify/native/sub-01.L.aparc.native.label.gii'',
            ''/work/sub-01/MNINonLinear/Native/sub-01.L.sphere.reg.reg_LR.native.surf.gii'',
            ''/work/sub-01/MNINonLinear/fsaverage_LR32k/sub-01.L.sphere.32k_fs_LR.surf.gii'',
            ''BARYCENTRIC'', ''/tmp/ciftify/32k_fs_LR/sub-01.L.aparc.32k_fs_LR.label.gii'',
            ''-largest''],
          dryrun = False, suppress_stdout = False, suppress_stderr = False,
          run_env = [(''OMP_NUM_THREADS'', ''1'')]\<rparr>],
        logged = []\<rparr>)"
    using present resample_label_command [where env = plain_env
        and w = "world_of [(''/tmp/ciftify/native/sub-01.L.aparc.native.label.gii'', [])]"
        and subject_id = "''sub-01''" and label_name = "''aparc''" and hemisphere = "''L''"
        and source_mesh = atlas_native_mesh and dest_mesh = low_res_mesh
        and current_sphere = "''sphere.reg.reg_LR''" and dest_sphere = "''sphere''"
        and g = plain_globals]
    by (simp add: Let_def world_of_def plain_globals_def atlas_native_mesh_def low_res_mesh_def
          plain_label_file plain_surf_file join2_def endswith_def plain_run plain_run_tool_def
          cmd_outputs_def)
  from absent present a b show ?thesis by blast
qed

text \<open>
  The claim as first stated (a present label is resampled) fails in a dry run: with
  \<^verbatim>\<open>DRYRUN\<close> set and the source label present, the one call handed to the runner is
  flagged as a dry run, the runner of the sample environment does nothing, and the label
  file of the destination mesh does not exist afterwards.
\<close>

theorem resample_label_dry_run_counterexample:
  "os_path_exists plain_env
     (fs (world_of [(''/tmp/ciftify/native/sub-01.L.aparc.native.label.gii'', [])]))
     (label_file plain_env ''sub-01'' ''aparc'' ''L'' atlas_native_mesh)
   \<and> resample_label plain_env \<lparr>DRYRUN = True, N_CPUS = ''1'', FS_LICENSE = None\<rparr>
        ''sub-01'' ''aparc'' ''L''
        atlas_native_mesh low_res_mesh ''sphere.reg.reg_LR'' ''sphere''
        (world_of [(''/tmp/ciftify/native/sub-01.L.aparc.native.label.gii'', [])]) =
      (Inr (),
       \<lparr>fs = [(''/tmp/ciftify/native/sub-01.L.aparc.native.label.gii'', [])],
        events = [Run \<lparr>argv = [''wb_command'', ''-label-resample'',
            ''/tmp/ciftify/native/sub-01.L.aparc.native.label.gii'',
            ''/work/sub-01/MNINonLinear/Native/sub-01.L.sphere.reg.reg_LR.native.surf.gii'',
            ''/work/sub-01/MNINonLinear/fsaverage_LR32k/sub-01.L.sphere.32k_fs_LR.surf.gii'',
            ''BARYCENTRIC'', ''/tmp/ciftify/32k_fs_LR/sub-01.L.aparc.32k_fs_LR.label.gii'',
            ''-largest''],
          dryrun = True, suppress_stdout = False, suppress_stderr = False,
          run_env = [(''OMP_NUM_THREADS'', ''1'')]\<rparr>],
        logged = []\<rparr>)
   \<and> label_file plain_env ''sub-01'' ''aparc'' ''L'' low_res_mesh =
       ''/tmp/ciftify/32k_fs_LR/sub-01.L.aparc.32k_fs_LR.label.gii''
   \<and> \<not> os_path_exists plain_env
        [(''/tmp/ciftify/native/sub-01.L.aparc.native.label.gii'', [])]
        ''/tmp/ciftify/32k_fs_LR/sub-01.L.aparc.32k_fs_LR.label.gii''"
  by (simp add: resample_label_def run_def run_call_def Let_def world_of_def plain_globals_def
        atlas_native_mesh_def low_res_mesh_def plain_label_file plain_surf_file join2_def
        endswith_def plain_run plain_run_tool_def plain_exists)

section \<open>The registration sphere of the add-on\<close>

text \<open>
  Claim C9, as amended. \<^verbatim>\<open>resampling_to_t1w_32k\<close> names the registration sphere
  \<^verbatim>\<open>sphere.MSMSulc\<close> when the registration mode is \<^verbatim>\<open>MSMSulc\<close> and
  \<^verbatim>\<open>sphere.reg.reg_LR\<close> otherwise. When the file of that sphere for the left hemisphere
  of the mesh \<^verbatim>\<open>AtlasSpaceNative\<close> does not exist, the function logs one critical
  record and exits with status 1: no command has run, no directory has been made, the
  file system is as it was. The file of the right hemisphere is not tested (see the
  counterexample below).
\<close>

theorem resampling_needs_registration_sphere:
  "map_of meshes ''AtlasSpaceNative'' = Some atlas_native \<and>
   \<not> os_path_exists env (fs w)
       (surf_file env (sid (s_subject settings))
          (if s_reg_name settings = ''MSMSulc'' then ''sphere.MSMSulc'' else ''sphere.reg.reg_LR'')
          ''L'' atlas_native)
   \<longrightarrow>
   resampling_to_t1w_32k env g temp_dir settings meshes expected_labels w =
     (Inl (SystemExit 1),
      w\<lparr>logged := logged w @
         [(CRITICAL, ''Cannot find registration sphere ''
            @ surf_file env (sid (s_subject settings))
                (if s_reg_name settings = ''MSMSulc'' then ''sphere.MSMSulc''
                 else ''sphere.reg.reg_LR'') ''L'' atlas_native
            @ '', exiting'')]\<rparr>)"
  by (simp add: resampling_to_t1w_32k_def get_reg_sphere_names_def Let_def and_then_def
        lookup_def logger_def sys_exit_def raise_err_def)

theorem resampling_needs_registration_sphere_witness:
  "map_of plain_meshes ''AtlasSpaceNative'' = Some atlas_native_mesh
   \<and> \<not> os_path_exists plain_env (fs (world_of []))
        (surf_file plain_env ''sub-01'' ''sphere.reg.reg_LR'' ''L'' atlas_native_mesh)
   \<and> resampling_to_t1w_32k plain_env plain_globals ''/tmp/ciftify'' plain_settings plain_meshes
        [''aparc''] (world_of []) =
      (Inl (SystemExit 1),
       \<lparr>fs = [], events = [],
        logged = [(CRITICAL, ''Cannot find registration sphere ''
          @ ''/work/sub-01/MNINonLinear/Native/sub-01.L.sphere.reg.reg_LR.native.surf.gii''
          @ '', exiting'')]\<rparr>)"
proof -
  have m: "map_of plain_meshes ''AtlasSpaceNative'' = Some atlas_native_mesh"
    by (simp add: plain_meshes_eq)
  have n: "\<not> os_path_exists plain_env (fs (world_of []))
        (surf_file plain_env ''sub-01'' ''sphere.reg.reg_LR'' ''L'' atlas_native_mesh)"
    by (simp add: plain_exists world_of_def)
  have s: "sid (s_subject plain_settings) = ''sub-01''" "s_reg_name plain_settings = ''FS''"
    by (simp_all add: plain_settings_def plain_subject_def)
  show ?thesis
    using m n resampling_needs_registration_sphere [where meshes = plain_meshes
        and atlas_native = atlas_native_mesh and env = plain_env and w = "world_of []"
        and settings = plain_settings and g = plain_globals and temp_dir = "''/tmp/ciftify''"
        and expected_labels = "[''aparc'']"]
    by (simp add: s world_of_def atlas_native_mesh_def plain_surf_file join2_def endswith_def)
qed

text \<open>
  The claim as first stated speaks of the sphere file of the mesh without naming a
  hemisphere. Only the left file is tested: here the right file is missing, and the
  function makes the folder of the destination mesh, copies the template spheres and
  resamples the left white surface before the command for the right white surface fails
  on the missing sphere. The program then exits with status 1 from \<^verbatim>\<open>run\<close>; no record
  about the registration sphere is logged.
\<close>

theorem resampling_right_sphere_counterexample:
  "map_of plain_meshes ''AtlasSpaceNative'' = Some atlas_native_mesh
   \<and> surf_file sphere_checking_env ''sub-01'' ''sphere.reg.reg_LR'' ''R'' atlas_native_mesh =
       ''/work/sub-01/MNINonLinear/Native/sub-01.R.sphere.reg.reg_LR.native.surf.gii''
   \<and> \<not> os_path_exists sphere_checking_env (fs left_sphere_world)
         ''/work/sub-01/MNINonLinear/Native/sub-01.R.sphere.reg.reg_LR.native.surf.gii''
   \<and> resampling_to_t1w_32k sphere_checking_env plain_globals ''/tmp/ciftify'' copying_settings
        plain_meshes [''aparc''] left_sphere_world =
      (Inl (SystemExit 1),
       \<lparr>fs = [(''/work/sub-01/T1w/fsaverage_LR32k/sub-01.32k_fs_LR.wb.spec'', []),
              (''/work/sub-01/T1w/fsaverage_LR32k/sub-01.L.white.32k_fs_LR.surf.gii'', []),
              (''/work/sub-01/T1w/fsaverage_LR32k/sub-01.32k_fs_LR.wb.spec'', []),
              (''/work/sub-01/T1w/fsaverage_LR32k/sub-01.R.sphere.32k_fs_LR.surf.gii'', []),
              (''/work/sub-01/T1w/fsaverage_LR32k/sub-01.32k_fs_LR.wb.spec'', []),
              (''/work/sub-01/T1w/fsaverage_LR32k/sub-01.L.sphere.32k_fs_LR.surf.gii'', []),
              (''/work/sub-01/T1w/fsaverage_LR32k/sub-01.32k_fs_LR.wb.spec'', []),
              (''/work/sub-01/T1w/fsaverage_LR32k'', []),
              (''/work/sub-01/MNINonLinear/Native/sub-01.L.sphere.reg.reg_LR.native.surf.gii'',
               [])],
        events =
          [MakeDir ''/work/sub-01/T1w/fsaverage_LR32k'' False False,
           Run \<lparr>argv = [''wb_command'', ''-add-to-spec-file'',
                  ''/work/sub-01/T1w/fsaverage_LR32k/sub-01.32k_fs_LR.wb.spec'',
                  ''INVALID'', ''/work/sub-01/T1w/T1w.nii.gz''],
                dryrun = False, suppress_stdout = False, suppress_stderr = False,
                run_env = [(''OMP_NUM_THREADS'', ''1'')]\<rparr>,
           Run \<lparr>argv = [''cp'', ''/data/standard_mesh_atlases/L.sphere.32k_fs_LR.surf.gii'',
                  ''/work/sub-01/T1w/fsaverage_LR32k/sub-01.L.sphere.32k_fs_LR.surf.gii''],
                dryrun = False, suppress_stdout = False, suppress_stderr = False,
                run_env = [(''OMP_NUM_THREADS'', ''1'')]\<rparr>,
           Run \<lparr>argv = [''wb_command'', ''-add-to-spec-file'',
                  ''/work/sub-01/T1w/fsaverage_LR32k/sub-01.32k_fs_LR.wb.spec'',
                  ''CORTEX_LEFT'',
                  ''/work/sub-01/T1w/fsaverage_LR32k/sub-01.L.sphere.32k_fs_LR.surf.gii''],
                dryrun = False, suppress_stdout = False, suppress_stderr = False,
                run_env = [(''OMP_NUM_THREADS'', ''1'')]\<rparr>,
           Run \<lparr>argv = [''cp'', ''/data/standard_mesh_atlases/R.sphere.32k_fs_LR.surf.gii'',
                  ''/work/sub-01/T1w/fsaverage_LR32k/sub-01.R.sphere.32k_fs_LR.surf.gii''],
                dryrun = False, suppress_stdout = False, suppress_stderr = False,
                run_env = [(''OMP_NUM_THREADS'', ''1'')]\<rparr>,
           Run \<lparr>argv = [''wb_command'', ''-add-to-spec-file'',
                  ''/work/sub-01/T1w/fsaverage_LR32k/sub-01.32k_fs_LR.wb.spec'',
                  ''CORTEX_RIGHT'',
                  ''/work/sub-01/T1w/fsaverage_LR32k/sub-01.R.sphere.32k_fs_LR.surf.gii''],
                dryrun = False, suppress_stdout = False, suppress_stderr = False,
                run_env = [(''OMP_NUM_THREADS'', ''1'')]\<rparr>,
           Run \<lparr>argv = [''wb_command'', ''-surface-resample'',
                  ''/work/sub-01/T1w/Native/sub-01.L.white.native.surf.gii'',
                  ''/work/sub-01/MNINonLinear/Native/sub-01.L.sphere.reg.reg_LR.native.surf.gii'',
                  ''/work/sub-01/T1w/fsaverage_LR32k/sub-01.L.sphere.32k_fs_LR.surf.gii'',
                  ''BARYCENTRIC'',
                  ''/work/sub-01/T1w/fsaverage_LR32k/sub-01.L.white.32k_fs_LR.surf.gii''],
                dryrun = False, suppress_stdout = False, suppress_stderr = False,
                run_env = [(''OMP_NUM_THREADS'', ''1'')]\<rparr>,
           Run \<lparr>argv = [''wb_command'', ''-add-to-spec-file'',
                  ''/work/sub-01/T1w/fsaverage_LR32k/sub-01.32k_fs_LR.wb.spec'',
                  ''CORTEX_LEFT'',
                  ''/work/sub-01/T1w/fsaverage_LR32k/sub-01.L.white.32k_fs_LR.surf.gii''],
                dryrun = False, suppress_stdout = False, suppress_stderr = False,
                run_env = [(''OMP_NUM_THREADS'', ''1'')]\<rparr>,
           Run \<lparr>argv = [''wb_command'', ''-surface-resample'',
                  ''/work/sub-01/T1w/Native/sub-01.R.white.native.surf.gii'',
                  ''/work/sub-01/MNINonLinear/Native/sub-01.R.sphere.reg.reg_LR.native.surf.gii'',
                  ''/work/sub-01/T1w/fsaverage_LR32k/sub-01.R.sphere.32k_fs_LR.surf.gii'',
                  ''BARYCENTRIC'',
                  ''/work/sub-01/T1w/fsaverage_LR32k/sub-01.R.white.32k_fs_LR.surf.gii''],
                dryrun = False, suppress_stdout = False, suppress_stderr = False,
                run_env = [(''OMP_NUM_THREADS'', ''1'')]\<rparr>],
        logged = [(INFO, ''Resampling data from Native to T1w -32k_fs_LR'')]\<rparr>)"
proof (intro conjI)
  show "map_of plain_meshes ''AtlasSpaceNative'' = Some atlas_native_mesh"
    by (simp add: plain_meshes_eq)
qed code_simp+
section \<open>The MSM configuration is checked before anything runs\<close>




section \<open>The pair of user transforms\<close>



section \<open>The order of a resampling pass\<close>
































end
